theory Spec2Isabelle
  imports Main
begin

chapter \<open>The server of the Police Management System\<close>

text \<open>
  The entry module of the server (its startup sequence \<open>startServer\<close>, from the loading of
  the optional modules to the listening socket) and the evidence routes
  (\<open>EvidenceCRUD\<close> and \<open>registerEvidenceRoutes\<close>) are embedded as functions; Express, the
  MongoDB driver and the modules that are not among the sources enter as far as the
  embedded code uses them. The properties proved are in the last three sections.
\<close>

section \<open>JavaScript values\<close>

text \<open>
  The values that travel through the handlers: what \<open>express.json\<close> parses from a request
  body, what the MongoDB driver stores and returns, and what \<open>res.json\<close> serialises.
  Numbers are the integers only. A \<open>Date\<close> is carried as its ISO-8601 text, the form in which
  a JSON response shows it. \<open>JId n\<close> is the driver's \<open>ObjectId\<close> whose twelve bytes are the
  number \<open>n\<close>. An object is the list of its own properties in insertion order.

  A string is the list of its characters, a character outside ASCII being held as the bytes
  of its UTF-8 form. The strings whose length is measured here (decimal numbers,
  hexadecimal ids) are ASCII, one \<open>char\<close> per character.
\<close>

datatype json =
    JNull
  | JBool bool
  | JNum int
  | JStr string
  | JId nat
  | JArr "json list"
  | JObj "(string \<times> json) list"

type_synonym obj = "(string \<times> json) list"

text \<open>\<open>o.k\<close>: the property, or \<open>None\<close> for JavaScript's \<open>undefined\<close>.\<close>

definition getprop :: "obj \<Rightarrow> string \<Rightarrow> json option" where
  "getprop ob k = map_of ob k"

text \<open>The truth value JavaScript gives a value in \<open>!x\<close> and \<open>x || y\<close>.\<close>

fun truthy :: "json \<Rightarrow> bool" where
  "truthy JNull = False"
| "truthy (JBool b) = b"
| "truthy (JNum n) = (n \<noteq> 0)"
| "truthy (JStr s) = (s \<noteq> [])"
| "truthy (JId n) = True"
| "truthy (JArr xs) = True"
| "truthy (JObj kvs) = True"

definition truthy_prop :: "json option \<Rightarrow> bool" where
  "truthy_prop v = (case v of None \<Rightarrow> False | Some x \<Rightarrow> truthy x)"

text \<open>\<open>o.k = v\<close>: an existing property keeps its place, a new one goes last.\<close>

fun assign :: "string \<Rightarrow> json \<Rightarrow> obj \<Rightarrow> obj" where
  "assign k v [] = [(k, v)]"
| "assign k v (p # ps) = (if fst p = k then (k, v) # ps else p # assign k v ps)"

text \<open>\<open>{...base, ...src}\<close>: the properties of \<open>src\<close> are assigned onto \<open>base\<close> in turn.\<close>

definition spread :: "obj \<Rightarrow> obj \<Rightarrow> obj" where
  "spread base src = foldl (\<lambda>ob kv. assign (fst kv) (snd kv) ob) base src"

text \<open>\<open>String(n)\<close> for a non-negative integer: its decimal digits.\<close>

fun String :: "nat \<Rightarrow> string" where
  "String n =
     (if n < 10 then [''0123456789'' ! n]
      else String (n div 10) @ [''0123456789'' ! (n mod 10)])"

declare String.simps [simp del]

text \<open>\<open>s.padStart(n, c)\<close> with a one-character filler.\<close>

definition padStart :: "nat \<Rightarrow> char \<Rightarrow> string \<Rightarrow> string" where
  "padStart n c s = replicate (n - length s) c @ s"

subsection \<open>ObjectId\<close>

definition lower :: "char \<Rightarrow> char" where
  "lower c =
     (case map_of (zip ''ABCDEFGHIJKLMNOPQRSTUVWXYZ'' ''abcdefghijklmnopqrstuvwxyz'') c of
        Some d \<Rightarrow> d
      | None \<Rightarrow> c)"

definition hex_value :: "char \<Rightarrow> nat option" where
  "hex_value c =
     map_of (zip ''0123456789abcdef'' [0, 1, 2, 3, 4, 5, 6, 7, 8, 9, 10, 11, 12, 13, 14, 15]) (lower c)"

text \<open>
  \<open>new ObjectId(s)\<close> on a string, as the driver documents it: a string of 24 hexadecimal
  characters is accepted, anything else throws.
\<close>

definition ObjectId_valid :: "string \<Rightarrow> bool" where
  "ObjectId_valid s = (length s = 24 \<and> list_all (\<lambda>c. hex_value c \<noteq> None) s)"

datatype error = Error (code: "nat option") (message: string)

definition ObjectId :: "string \<Rightarrow> error + nat" where
  "ObjectId s =
     (if ObjectId_valid s
      then Inr (foldl (\<lambda>a c. 16 * a + (case hex_value c of Some d \<Rightarrow> d | None \<Rightarrow> 0)) 0 s)
      else Inl (Error None ''input must be a 24 character hex string, 12 byte Uint8Array, or an integer''))"

text \<open>\<open>oid.toString()\<close>: 24 lower-case hexadecimal characters.\<close>

definition toHexString :: "nat \<Rightarrow> string" where
  "toHexString n = map (\<lambda>i. ''0123456789abcdef'' ! ((n div 16 ^ (23 - i)) mod 16)) [0 ..< 24]"

text \<open>
  \<open>v.toString()\<close>. On \<open>null\<close> and \<open>undefined\<close> it throws a TypeError, which is \<open>None\<close> here.
  So it does on an object that has a property \<open>toString\<close> of its own: the value of that
  property is data, not a function, and it hides the method every object inherits. An array
  joins the strings of its elements, \<open>null\<close> giving the empty string, and throws when
  an element cannot be converted.
\<close>

fun join :: "string \<Rightarrow> string list \<Rightarrow> string" where
  "join sep [] = []"
| "join sep [x] = x"
| "join sep (x # y # ys) = x @ sep @ join sep (y # ys)"

fun toString :: "json \<Rightarrow> string option" where
  "toString JNull = None"
| "toString (JBool b) = Some (if b then ''true'' else ''false'')"
| "toString (JNum n) = Some (if n < 0 then ''-'' @ String (nat (- n)) else String (nat n))"
| "toString (JStr s) = Some s"
| "toString (JId n) = Some (toHexString n)"
| "toString (JArr xs) =
     map_option (join '','') (those (map (\<lambda>x. if x = JNull then Some [] else toString x) xs))"
| "toString (JObj kvs) = (if map_of kvs ''toString'' = None then Some ''[object Object]'' else None)"

definition toString_prop :: "json option \<Rightarrow> string option" where
  "toString_prop v = (case v of None \<Rightarrow> None | Some x \<Rightarrow> toString x)"

subsection \<open>decodeURIComponent\<close>

text \<open>
  \<open>decodeURIComponent(s)\<close>, as ECMAScript defines it. Every \<open>%\<close> must be followed by two
  hexadecimal digits, which give an octet. An octet below 128 is the character itself; any
  other must begin a well-formed UTF-8 sequence made of escaped octets only, which is the
  character it encodes. \<open>None\<close> is the URIError thrown otherwise.
\<close>

datatype piece = Plain char | Escaped nat

fun unescape :: "string \<Rightarrow> piece list option" where
  "unescape [] = Some []"
| "unescape (c # cs) =
     (if c \<noteq> CHR ''%'' then map_option (Cons (Plain c)) (unescape cs)
      else (case cs of
              h # l # rest \<Rightarrow>
                (case (hex_value h, hex_value l) of
                   (Some a, Some b) \<Rightarrow> map_option (Cons (Escaped (16 * a + b))) (unescape rest)
                 | _ \<Rightarrow> None)
            | _ \<Rightarrow> None))"

text \<open>
  The ranges in which the octets after a leading octet \<open>b\<close> must lie (the table of
  well-formed UTF-8 of the Unicode standard); empty when \<open>b\<close> cannot lead.
\<close>

definition trail :: "nat \<Rightarrow> (nat \<times> nat) list" where
  "trail b =
     (if 0xC2 \<le> b \<and> b \<le> 0xDF then [(0x80, 0xBF)]
      else if b = 0xE0 then [(0xA0, 0xBF), (0x80, 0xBF)]
      else if 0xE1 \<le> b \<and> b \<le> 0xEC then [(0x80, 0xBF), (0x80, 0xBF)]
      else if b = 0xED then [(0x80, 0x9F), (0x80, 0xBF)]
      else if 0xEE \<le> b \<and> b \<le> 0xEF then [(0x80, 0xBF), (0x80, 0xBF)]
      else if b = 0xF0 then [(0x90, 0xBF), (0x80, 0xBF), (0x80, 0xBF)]
      else if 0xF1 \<le> b \<and> b \<le> 0xF3 then [(0x80, 0xBF), (0x80, 0xBF), (0x80, 0xBF)]
      else if b = 0xF4 then [(0x80, 0x8F), (0x80, 0xBF), (0x80, 0xBF)]
      else [])"

text \<open>\<open>well_formed due ps\<close>: the octets still due to the sequence in progress are \<open>due\<close>.\<close>

fun well_formed :: "(nat \<times> nat) list \<Rightarrow> piece list \<Rightarrow> bool" where
  "well_formed due [] = (due = [])"
| "well_formed [] (Plain c # ps) = well_formed [] ps"
| "well_formed [] (Escaped b # ps) =
     (if b < 0x80 then well_formed [] ps else trail b \<noteq> [] \<and> well_formed (trail b) ps)"
| "well_formed ((lo, hi) # due) (Plain c # ps) = False"
| "well_formed ((lo, hi) # due) (Escaped b # ps) = (lo \<le> b \<and> b \<le> hi \<and> well_formed due ps)"

fun char_of_piece :: "piece \<Rightarrow> char" where
  "char_of_piece (Plain c) = c"
| "char_of_piece (Escaped b) = char_of b"

definition decodeURIComponent :: "string \<Rightarrow> string option" where
  "decodeURIComponent s =
     (case unescape s of
        None \<Rightarrow> None
      | Some ps \<Rightarrow> if well_formed [] ps then Some (map char_of_piece ps) else None)"

section \<open>The evidence collection\<close>

text \<open>
  What the MongoDB driver does is outside the repository. The part of it that the evidence
  handlers use is modelled on one collection: its documents in insertion order, the next
  \<open>ObjectId\<close> the driver will generate, and the clock that \<open>new Date()\<close> reads (as ISO text).
  \<open>refuses docs doc\<close> is what the server of the deployment answers to the insertion of
  \<open>doc\<close> into the stored \<open>docs\<close> when it does not take it: the error of a validation rule, of
  a unique index the deployment has added, of a limit of size or depth, of a field name
  it does not allow. \<open>getDatabase()\<close> returns this database; the routes that call it are
  registered only after a successful connection.
\<close>

record db =
  evidence :: "obj list"
  next_id :: nat
  now :: string
  refuses :: "obj list \<Rightarrow> obj \<Rightarrow> error option"

text \<open>\<open>collection.countDocuments()\<close>\<close>

definition countDocuments :: "db \<Rightarrow> nat" where
  "countDocuments d = length (evidence d)"

text \<open>
  \<open>collection.insertOne(doc)\<close>. The driver gives the document a generated \<open>_id\<close> when it has
  none (\<open>doc._id == null\<close>). Every server refuses an array as \<open>_id\<close> and an \<open>_id\<close> that a
  stored document already has (the duplicate-key error, code 11000); what else the server
  refuses is the field \<open>refuses\<close> of the database.
  The result is the inserted id, the document as the driver left it, and the new database.
\<close>

definition has_id :: "json \<Rightarrow> obj \<Rightarrow> bool" where
  "has_id i doc = (getprop doc ''_id'' = Some i)"

definition store :: "json \<Rightarrow> obj \<Rightarrow> db \<Rightarrow> error + (json \<times> obj \<times> db)" where
  "store i doc d =
     (case i of
        JArr xs \<Rightarrow> Inl (Error (Some 53) ''an array cannot be used for _id'')
      | _ \<Rightarrow>
          (case refuses d (evidence d) doc of
             Some e \<Rightarrow> Inl e
           | None \<Rightarrow>
               if list_ex (has_id i) (evidence d)
               then Inl (Error (Some 11000) ''E11000 duplicate key error'')
               else Inr (i, doc, d\<lparr>evidence := evidence d @ [doc]\<rparr>)))"

definition generate_id :: "obj \<Rightarrow> db \<Rightarrow> error + (json \<times> obj \<times> db)" where
  "generate_id doc d =
     store (JId (next_id d)) (assign ''_id'' (JId (next_id d)) doc) (d\<lparr>next_id := Suc (next_id d)\<rparr>)"

definition insertOne :: "obj \<Rightarrow> db \<Rightarrow> error + (json \<times> obj \<times> db)" where
  "insertOne doc d =
     (case getprop doc ''_id'' of
        None \<Rightarrow> generate_id doc d
      | Some JNull \<Rightarrow> generate_id doc d
      | Some i \<Rightarrow> store i doc d)"

text \<open>\<open>collection.findOne({_id: oid})\<close>: the first document with that id, or \<open>null\<close>.\<close>

definition findOne :: "nat \<Rightarrow> db \<Rightarrow> obj option" where
  "findOne oid d = find (has_id (JId oid)) (evidence d)"

text \<open>
  \<open>collection.updateOne({_id: oid}, {$set: changes})\<close>: the first document with that id gets
  the fields assigned; \<open>modifiedCount\<close> is 1 when that changed the document, else 0. The
  server refuses a \<open>$set\<close> that would change \<open>_id\<close> (code 66); \<open>refuses\<close> speaks of insertions
  only.
\<close>

fun update_first :: "nat \<Rightarrow> obj \<Rightarrow> obj list \<Rightarrow> error + (nat \<times> obj list)" where
  "update_first oid changes [] = Inr (0, [])"
| "update_first oid changes (doc # docs) =
     (if has_id (JId oid) doc
      then (case getprop changes ''_id'' of
              None \<Rightarrow> Inr (if spread doc changes = doc then 0 else 1, spread doc changes # docs)
            | Some i \<Rightarrow>
                if i = JId oid
                then Inr (if spread doc changes = doc then 0 else 1, spread doc changes # docs)
                else Inl (Error (Some 66) ''Performing an update on the path _id would modify the immutable field _id''))
      else (case update_first oid changes docs of
              Inl e \<Rightarrow> Inl e
            | Inr (n, docs') \<Rightarrow> Inr (n, doc # docs')))"

definition updateOne :: "nat \<Rightarrow> obj \<Rightarrow> db \<Rightarrow> error + (nat \<times> db)" where
  "updateOne oid changes d =
     (case update_first oid changes (evidence d) of
        Inl e \<Rightarrow> Inl e
      | Inr (n, docs') \<Rightarrow> Inr (n, d\<lparr>evidence := docs'\<rparr>))"

text \<open>\<open>collection.deleteOne({_id: oid})\<close>: the first document with that id is removed.\<close>

fun delete_first :: "nat \<Rightarrow> obj list \<Rightarrow> nat \<times> obj list" where
  "delete_first oid [] = (0, [])"
| "delete_first oid (doc # docs) =
     (if has_id (JId oid) doc then (1, docs)
      else (case delete_first oid docs of (n, docs') \<Rightarrow> (n, doc # docs')))"

definition deleteOne :: "nat \<Rightarrow> db \<Rightarrow> nat \<times> db" where
  "deleteOne oid d = (case delete_first oid (evidence d) of (n, docs') \<Rightarrow> (n, d\<lparr>evidence := docs'\<rparr>))"

subsection \<open>EvidenceCRUD\<close>

text \<open>
  \<open>EvidenceCRUD.create\<close>. The two \<open>new Date()\<close> readings are taken at the same instant.
  The result is \<open>{_id: result.insertedId, ...evidenceData}\<close>.
\<close>

definition evidence_number :: "nat \<Rightarrow> string" where
  "evidence_number count = ''EV-'' @ padStart 6 (CHR ''0'') (String (count + 1))"

definition create :: "obj \<Rightarrow> db \<Rightarrow> error + (obj \<times> db)" where
  "create evidenceData d =
     (let data1 = (if \<not> truthy_prop (getprop evidenceData ''evidenceNumber'')
                   then assign ''evidenceNumber'' (JStr (evidence_number (countDocuments d))) evidenceData
                   else evidenceData);
          data2 = assign ''createdAt'' (JStr (now d)) data1;
          data3 = assign ''updatedAt'' (JStr (now d)) data2
      in case insertOne data3 d of
           Inl e \<Rightarrow> Inl e
         | Inr (insertedId, doc, d') \<Rightarrow> Inr (spread [(''_id'', insertedId)] doc, d'))"

definition findAll :: "db \<Rightarrow> obj list" where
  "findAll d = evidence d"

definition findById :: "string \<Rightarrow> db \<Rightarrow> error + obj option" where
  "findById i d = (case ObjectId i of Inl e \<Rightarrow> Inl e | Inr oid \<Rightarrow> Inr (findOne oid d))"

definition update :: "string \<Rightarrow> obj \<Rightarrow> db \<Rightarrow> error + (bool \<times> db)" where
  "update i updateData d =
     (let changes = assign ''updatedAt'' (JStr (now d)) updateData
      in case ObjectId i of
           Inl e \<Rightarrow> Inl e
         | Inr oid \<Rightarrow>
             (case updateOne oid changes d of
                Inl e \<Rightarrow> Inl e
              | Inr (modifiedCount, d') \<Rightarrow> Inr (modifiedCount > 0, d')))"

definition delete :: "string \<Rightarrow> db \<Rightarrow> error + (bool \<times> db)" where
  "delete i d =
     (case ObjectId i of
        Inl e \<Rightarrow> Inl e
      | Inr oid \<Rightarrow> (case deleteOne oid d of (deletedCount, d') \<Rightarrow> Inr (deletedCount > 0, d')))"

section \<open>Requests, responses and routing\<close>

text \<open>
  Express (version 4, whose route paths \<open>*\<close> and \<open>/api/*\<close> the entry module uses) is
  outside the repository; the part of it that the routes rely on is modelled here. A
  request is its method, its path (\<open>req.path\<close>, without the query string, its percent
  escapes in place) and its parsed body (\<open>req.body\<close>, an object; \<open>{}\<close> when nothing was
  parsed).
  \<open>OPTIONS\<close> is left out: the \<open>cors\<close> middleware answers such a request before any
  route sees it. Headers are left out as well: to a conditional GET, \<open>res.json\<close> and
  \<open>res.send\<close> may answer 304 where the handlers below say 200.
\<close>

datatype verb = GET | HEAD | POST | PUT | PATCH | DELETE

record request =
  req_method :: verb
  req_path :: string
  body :: obj

text \<open>
  What a handler does with a request: it sends a response (status and content), or calls
  \<open>next()\<close>, or does neither, and then the request is never answered. \<open>DefaultNotFound\<close>
  and \<open>DefaultBadRequest\<close> are the pages with which Express itself answers.
\<close>

datatype content = Json json | SendFile string | Html string | DefaultNotFound | DefaultBadRequest

datatype outcome = Respond nat content | Next | NoResponse

text \<open>
  The handlers an application can hold. Those written in the sources are named;
  \<open>Health\<close> and \<open>InlineHtml\<close> carry the value of \<open>mongoConnected\<close> that their closure reads.
  \<open>Library name\<close> is a middleware built by a library call (\<open>cors(...)\<close>,
  \<open>express.static(dir)\<close>, ...) or a library call that answers the request
  (\<open>res.sendFile\<close>), \<open>Foreign m n\<close> the \<open>n\<close>-th handler installed by a module \<open>m\<close> that is
  not among the sources.
\<close>

datatype handler =
    Library string
  | Foreign string nat
  | Health bool
  | ServiceUnavailable
  | ProdIndex
  | InlineHtml bool
  | GetAllEvidence
  | GetEvidenceById
  | CreateEvidence
  | UpdateEvidence
  | DeleteEvidence

text \<open>
  A route path is kept as its pieces: literal text, a named parameter \<open>:name\<close>, the
  wildcard \<open>*\<close>. \<open>Mount p\<close> is \<open>app.use(p, ...)\<close> (and \<open>app.use(...)\<close> is \<open>Mount ''/''\<close>),
  \<open>Route m ts\<close> is \<open>app.m(path, ...)\<close>.
\<close>

datatype tok = Lit string | Param string | Wild

datatype matcher = Mount string | Route verb "tok list"

datatype layer = Layer matcher handler

fun handler_of :: "layer \<Rightarrow> handler" where
  "handler_of (Layer m h) = h"

fun first_some :: "'a option list \<Rightarrow> 'a option" where
  "first_some [] = None"
| "first_some (None # xs) = first_some xs"
| "first_some (Some x # xs) = Some x"

text \<open>
  A capture ends between two characters: what follows it does not begin with an octet
  from the inside of a UTF-8 sequence.
\<close>

definition continuation :: "char \<Rightarrow> bool" where
  "continuation c = (digit7 c \<and> \<not> digit6 c)"

definition boundary :: "string \<Rightarrow> bool" where
  "boundary s = (case s of [] \<Rightarrow> True | c # cs \<Rightarrow> \<not> continuation c)"

text \<open>
  Matching a path against a route path, as Express 4 does with its defaults: the letters of
  ASCII match without regard to case, a parameter takes one or more characters other than
  \<open>/\<close> (the shortest that works), the wildcard takes any characters (the longest that
  works), and one trailing \<open>/\<close> is allowed. The result is the captured text, as it stands
  in the path.
\<close>

fun pmatch :: "tok list \<Rightarrow> string \<Rightarrow> (string \<times> string) list option" where
  "pmatch [] s = (if s = [] \<or> s = ''/'' then Some [] else None)"
| "pmatch (Lit l # ts) s =
     (if map lower (take (length l) s) = map lower l then pmatch ts (drop (length l) s) else None)"
| "pmatch (Param n # ts) s =
     first_some (map (\<lambda>k. map_option (Cons (n, take k s)) (pmatch ts (drop k s)))
                     (filter (\<lambda>k. boundary (drop k s))
                        [1 ..< Suc (length (takeWhile (\<lambda>c. c \<noteq> CHR ''/'') s))]))"
| "pmatch (Wild # ts) s =
     first_some (map (\<lambda>k. map_option (Cons (''0'', take k s)) (pmatch ts (drop k s)))
                     (filter (\<lambda>k. boundary (drop k s)) (rev [0 ..< Suc (length s)])))"

text \<open>
  Express hands the captures to the handlers decoded (\<open>req.params\<close>): each goes through
  \<open>decodeURIComponent\<close>, and the match fails with an error when one cannot be decoded.
\<close>

fun decode_params :: "(string \<times> string) list \<Rightarrow> (string \<times> string) list option" where
  "decode_params [] = Some []"
| "decode_params ((n, v) # ps) =
     (case decodeURIComponent v of
        None \<Rightarrow> None
      | Some t \<Rightarrow> map_option (Cons (n, t)) (decode_params ps))"

text \<open>A handler added with \<open>app.get\<close> also serves \<open>HEAD\<close> requests.\<close>

definition method_matches :: "verb \<Rightarrow> verb \<Rightarrow> bool" where
  "method_matches m rm = (rm = m \<or> (m = GET \<and> rm = HEAD))"

text \<open>
  A mounted middleware sees every path below its mount point: the mount path itself, or
  the mount path followed by \<open>/\<close>.
\<close>

definition mount_matches :: "string \<Rightarrow> string \<Rightarrow> bool" where
  "mount_matches p s =
     (p = ''/'' \<or>
      (map lower (take (length p) s) = map lower p \<and>
       (drop (length p) s = [] \<or> hd (drop (length p) s) = CHR ''/'')))"

text \<open>
  Whether a layer takes a request. Express matches the path of a route, and decodes what
  it captured, before it looks at the method: a capture that cannot be decoded is an error
  whatever the method of the route.
\<close>

datatype matching = Unmatched | Undecodable | Matched "(string \<times> string) list"

fun matches :: "matcher \<Rightarrow> request \<Rightarrow> matching" where
  "matches (Mount p) r = (if mount_matches p (req_path r) then Matched [] else Unmatched)"
| "matches (Route m ts) r =
     (case pmatch ts (req_path r) of
        None \<Rightarrow> Unmatched
      | Some captures \<Rightarrow>
          (case decode_params captures of
             None \<Rightarrow> Undecodable
           | Some ps \<Rightarrow> if method_matches m (req_method r) then Matched ps else Unmatched))"

section \<open>The evidence route handlers\<close>

definition error_body :: "string \<Rightarrow> content" where
  "error_body msg = Json (JObj [(''error'', JStr msg)])"

text \<open>\<open>{id: item._id.toString(), ...item}\<close>; \<open>None\<close> when \<open>toString\<close> throws.\<close>

definition transform :: "obj \<Rightarrow> obj option" where
  "transform item =
     (case toString_prop (getprop item ''_id'') of
        None \<Rightarrow> None
      | Some s \<Rightarrow> Some (spread [(''id'', JStr s)] item))"

text \<open>
  Each handler is the body of its \<open>try\<close> with the \<open>catch\<close> as the error branch. The
  \<open>console\<close> lines of the handlers are left out.
\<close>

definition get_all_evidence :: "db \<Rightarrow> outcome \<times> db" where
  "get_all_evidence d =
     (case those (map transform (findAll d)) of
        None \<Rightarrow> (Respond 500 (error_body ''Failed to fetch evidence''), d)
      | Some items \<Rightarrow> (Respond 200 (Json (JObj [(''evidence'', JArr (map JObj items))])), d))"

definition get_evidence_by_id :: "string \<Rightarrow> db \<Rightarrow> outcome \<times> db" where
  "get_evidence_by_id i d =
     (case findById i d of
        Inl e \<Rightarrow> (Respond 500 (error_body ''Failed to fetch evidence''), d)
      | Inr None \<Rightarrow> (Respond 404 (error_body ''Evidence not found''), d)
      | Inr (Some ev) \<Rightarrow>
          (case transform ev of
             None \<Rightarrow> (Respond 500 (error_body ''Failed to fetch evidence''), d)
           | Some t \<Rightarrow> (Respond 200 (Json (JObj [(''evidence'', JObj t)])), d)))"

definition create_evidence :: "obj \<Rightarrow> db \<Rightarrow> outcome \<times> db" where
  "create_evidence b d =
     (let evidenceData =
            assign ''collectedBy''
              (case getprop b ''collectedBy'' of
                 None \<Rightarrow> JStr ''Unknown Officer''
               | Some v \<Rightarrow> if truthy v then v else JStr ''Unknown Officer'')
              b
      in if \<not> truthy_prop (getprop evidenceData ''type'')
            \<or> \<not> truthy_prop (getprop evidenceData ''description'')
            \<or> \<not> truthy_prop (getprop evidenceData ''location'')
         then (Respond 400 (error_body ''Missing required fields: type, description, location''), d)
         else
           (case create evidenceData d of
              Inl e \<Rightarrow>
                if code e = Some 11000
                then (Respond 409 (error_body ''Evidence number already exists''), d)
                else (Respond 500 (error_body ''Failed to create evidence''), d)
            | Inr (ev, d') \<Rightarrow>
                (case transform ev of
                   None \<Rightarrow> (Respond 500 (error_body ''Failed to create evidence''), d')
                 | Some t \<Rightarrow>
                     (Respond 201
                        (Json (JObj [(''success'', JBool True),
                                     (''evidence'', JObj t),
                                     (''message'', JStr ''Evidence created successfully'')])),
                      d'))))"

definition update_evidence :: "string \<Rightarrow> obj \<Rightarrow> db \<Rightarrow> outcome \<times> db" where
  "update_evidence i b d =
     (case update i b d of
        Inl e \<Rightarrow> (Respond 500 (error_body ''Failed to update evidence''), d)
      | Inr (success, d') \<Rightarrow>
          if \<not> success then (Respond 404 (error_body ''Evidence not found''), d')
          else
            (case findById i d' of
               Inl e \<Rightarrow> (Respond 500 (error_body ''Failed to update evidence''), d')
             | Inr None \<Rightarrow> (Respond 500 (error_body ''Failed to update evidence''), d')
             | Inr (Some ev) \<Rightarrow>
                 (case transform ev of
                    None \<Rightarrow> (Respond 500 (error_body ''Failed to update evidence''), d')
                  | Some t \<Rightarrow>
                      (Respond 200
                         (Json (JObj [(''success'', JBool True),
                                      (''evidence'', JObj t),
                                      (''message'', JStr ''Evidence updated successfully'')])),
                       d'))))"

definition delete_evidence :: "string \<Rightarrow> db \<Rightarrow> outcome \<times> db" where
  "delete_evidence i d =
     (case delete i d of
        Inl e \<Rightarrow> (Respond 500 (error_body ''Failed to delete evidence''), d)
      | Inr (success, d') \<Rightarrow>
          if \<not> success then (Respond 404 (error_body ''Evidence not found''), d')
          else
            (Respond 200
               (Json (JObj [(''success'', JBool True),
                            (''message'', JStr ''Evidence deleted successfully'')])),
             d'))"

text \<open>The five routes that \<open>registerEvidenceRoutes\<close> adds, in its order.\<close>

definition evidence_routes :: "layer list" where
  "evidence_routes =
     [Layer (Route GET [Lit ''/api/evidence'']) GetAllEvidence,
      Layer (Route GET [Lit ''/api/evidence/'', Param ''id'']) GetEvidenceById,
      Layer (Route POST [Lit ''/api/evidence'']) CreateEvidence,
      Layer (Route PUT [Lit ''/api/evidence/'', Param ''id'']) UpdateEvidence,
      Layer (Route DELETE [Lit ''/api/evidence/'', Param ''id'']) DeleteEvidence]"

section \<open>Handlers of the entry module and dispatch\<close>

text \<open>The page of the inline fallback; the blanks between its tags are left out.\<close>

definition status_page :: "bool \<Rightarrow> string" where
  \<open>status_page connected =
     ''<!DOCTYPE html><html><head><title>Police Management System</title></head><body>''
     @ ''<h1>Police Management System</h1><p>Server is running! MongoDB: ''
     @ (if connected then ''Connected'' else ''Disconnected'')
     @ ''</p><p>API Health Check: <a href="/api/health">/api/health</a></p></body></html>''\<close>

text \<open>\<open>s.startsWith(p)\<close>\<close>

definition startsWith :: "string \<Rightarrow> string \<Rightarrow> bool" where
  "startsWith s p = (take (length p) s = p)"

definition health :: "bool \<Rightarrow> db \<Rightarrow> outcome" where
  "health connected d =
     Respond 200
       (Json (JObj [(''status'', JStr ''OK''),
                    (''timestamp'', JStr (now d)),
                    (''mongodb'', JStr (if connected then ''connected'' else ''disconnected'')),
                    (''message'', JStr (if connected then ''All systems operational''
                                       else ''Running in fallback mode - update MongoDB URI in .env''))]))"

definition service_unavailable :: outcome where
  "service_unavailable =
     Respond 503
       (Json (JObj [(''message'', JStr ''Database not available. Please configure MongoDB URI in .env file.''),
                    (''status'', JStr ''service_unavailable'')]))"

definition inline_html :: "bool \<Rightarrow> request \<Rightarrow> outcome" where
  "inline_html connected r =
     (if \<not> startsWith (req_path r) ''/api'' \<and> \<not> startsWith (req_path r) ''/uploads''
      then Respond 200 (Html (status_page connected))
      else NoResponse)"

text \<open>
  What the library middlewares and the handlers of modules outside the sources do is a
  parameter \<open>x\<close> of the dispatch.
\<close>

type_synonym ext = "handler \<Rightarrow> request \<Rightarrow> db \<Rightarrow> outcome \<times> db"

text \<open>
  \<open>res.sendFile(path.join(buildPath, 'index.html'))\<close> is such a library call: it answers
  with the file (or with 304, or a range of it, as the headers of the request ask), and
  when the file cannot be read it passes the error to Express, which answers with the
  status of the error (404 for a missing file). The catch-all of production makes this
  call when the path does not start with \<open>/api\<close>, and otherwise does nothing.
\<close>

definition index_html :: handler where
  "index_html = Library ''res.sendFile(../dist/public/index.html)''"

definition prod_index :: "ext \<Rightarrow> request \<Rightarrow> db \<Rightarrow> outcome \<times> db" where
  "prod_index x r d =
     (if \<not> startsWith (req_path r) ''/api'' then x index_html r d else (NoResponse, d))"

text \<open>
  \<open>req.params.id\<close> is the parameter the route bound; without it the driver's
  \<open>new ObjectId(undefined)\<close> makes a fresh id, which no document has.
\<close>

definition not_found :: "db \<Rightarrow> outcome \<times> db" where
  "not_found d = (Respond 404 (error_body ''Evidence not found''), d)"

fun run :: "ext \<Rightarrow> handler \<Rightarrow> (string \<times> string) list \<Rightarrow> request \<Rightarrow> db \<Rightarrow> outcome \<times> db" where
  "run x (Health c) ps r d = (health c d, d)"
| "run x ServiceUnavailable ps r d = (service_unavailable, d)"
| "run x ProdIndex ps r d = prod_index x r d"
| "run x (InlineHtml c) ps r d = (inline_html c r, d)"
| "run x GetAllEvidence ps r d = get_all_evidence d"
| "run x GetEvidenceById ps r d =
     (case map_of ps ''id'' of None \<Rightarrow> not_found d | Some i \<Rightarrow> get_evidence_by_id i d)"
| "run x CreateEvidence ps r d = create_evidence (body r) d"
| "run x UpdateEvidence ps r d =
     (case map_of ps ''id'' of None \<Rightarrow> not_found d | Some i \<Rightarrow> update_evidence i (body r) d)"
| "run x DeleteEvidence ps r d =
     (case map_of ps ''id'' of None \<Rightarrow> not_found d | Some i \<Rightarrow> delete_evidence i d)"
| "run x (Library n) ps r d = x (Library n) r d"
| "run x (Foreign m n) ps r d = x (Foreign m n) r d"

text \<open>
  Express offers the request to the layers in the order of their registration. A layer
  that matches runs; if it calls \<open>next()\<close> the search goes on, otherwise it ends there,
  answered or not. When no layer is left, Express answers 404 itself. When a capture
  cannot be decoded, the error (status 400) is pending from that layer on: no route takes
  the request any more, a middleware is passed over unless it is an error handler (one
  with four parameters), and at the end Express answers 400 itself. The sources and the
  libraries they call install no error handler; the other modules are taken to install
  none.
\<close>

fun dispatch :: "ext \<Rightarrow> layer list \<Rightarrow> request \<Rightarrow> db \<Rightarrow> outcome \<times> db" where
  "dispatch x [] r d = (Respond 404 DefaultNotFound, d)"
| "dispatch x (Layer m h # ls) r d =
     (case matches m r of
        Unmatched \<Rightarrow> dispatch x ls r d
      | Undecodable \<Rightarrow> (Respond 400 DefaultBadRequest, d)
      | Matched ps \<Rightarrow>
          (case run x h ps r d of
             (Next, d') \<Rightarrow> dispatch x ls r d'
           | (Respond st c, d') \<Rightarrow> (Respond st c, d')
           | (NoResponse, d') \<Rightarrow> (NoResponse, d')))"

text \<open>
  \<open>falls_through x ls r d\<close>: every layer of \<open>ls\<close> that matches the request passes it on,
  and none fails to decode it; the result is the database as those layers leave it.
\<close>

fun falls_through :: "ext \<Rightarrow> layer list \<Rightarrow> request \<Rightarrow> db \<Rightarrow> db option" where
  "falls_through x [] r d = Some d"
| "falls_through x (Layer m h # ls) r d =
     (case matches m r of
        Unmatched \<Rightarrow> falls_through x ls r d
      | Undecodable \<Rightarrow> None
      | Matched ps \<Rightarrow>
          (case run x h ps r d of
             (Next, d') \<Rightarrow> falls_through x ls r d'
           | (Respond st c, d') \<Rightarrow> None
           | (NoResponse, d') \<Rightarrow> None))"

section \<open>The startup sequence\<close>

text \<open>
  What startup does is recorded as a trace: the lines written to the console and the calls
  made into other modules. Pictographs and leading blanks of the messages are left out;
  \<open>console.warn(a, b)\<close> prints \<open>a\<close>, a blank and \<open>b\<close>.
\<close>

datatype level = Log | Warn | Err

datatype callee =
    ConnectToMongoDB
  | RegisterMongoDBRoutes
  | RegisterEvidenceRoutes
  | RegisterCustodialRoutes
  | RegisterAdditionalRoutes
  | SetupVite
  | SeedGeofiles
  | SeedAdminUser
  | Listen

datatype event = Console level string | Call callee

text \<open>
  The environment of a run. A dynamic \<open>import\<close> fails with a message or yields the module,
  whose expected export may be absent (\<open>undefined\<close>). An exported function, when called,
  returns or throws a message (\<open>attempt\<close>); a registrar may have installed handlers by
  then, given by the paths they are installed under (\<open>registration\<close>). \<open>bind\<close> is the
  \<open>error\<close> event of the server, its code and message, or \<open>None\<close> when the socket binds.
\<close>

datatype 'a import = ImportFailed string | Imported "'a option"

datatype attempt = Succeeds | Throws string

datatype registration = Registered "matcher list" | Failed "matcher list" string

record env =
  NODE_ENV :: "string option"
  PORT :: "string option"
  mongodb_connection :: "attempt import"
  mongodb_routes :: "registration import"
  evidence_routes_module :: "unit import"
  custodial_routes :: "registration import"
  vite :: "registration import"
  seed_geofiles :: "attempt import"
  api_routes :: "registration import"
  seed_admin :: "attempt import"
  bind :: "(string \<times> string) option"

text \<open>The value a module variable holds after the loading phase: the export, or nothing.\<close>

fun loaded :: "'a import \<Rightarrow> 'a option" where
  "loaded (ImportFailed msg) = None"
| "loaded (Imported x) = x"

record state =
  app :: "layer list"
  trace :: "event list"
  mongoConnected :: bool
  seeding_scheduled :: bool
  listening :: bool
  exit_code :: "nat option"

text \<open>
  A step runs on the state and either completes or throws an error message; what it did
  before throwing stays done.
\<close>

type_synonym step = "state \<Rightarrow> state \<times> string option"

definition skip :: step where
  "skip s = (s, None)"

definition throw :: "string \<Rightarrow> step" where
  "throw msg s = (s, Some msg)"

fun steps :: "step list \<Rightarrow> step" where
  "steps [] s = (s, None)"
| "steps (f # fs) s = (case f s of (s', None) \<Rightarrow> steps fs s' | (s', Some msg) \<Rightarrow> (s', Some msg))"

text \<open>\<open>try { block } catch (error) { handle(error.message) }\<close>\<close>

definition try_catch :: "step \<Rightarrow> (string \<Rightarrow> step) \<Rightarrow> step" where
  "try_catch block handle s =
     (case block s of (s', None) \<Rightarrow> (s', None) | (s', Some msg) \<Rightarrow> handle msg s')"

definition emit :: "event list \<Rightarrow> step" where
  "emit evs s = (s\<lparr>trace := trace s @ evs\<rparr>, None)"

definition use :: "layer list \<Rightarrow> step" where
  "use ls s = (s\<lparr>app := app s @ ls\<rparr>, None)"

definition import_module :: "'a import \<Rightarrow> step" where
  "import_module imp = (case imp of ImportFailed msg \<Rightarrow> throw msg | Imported x \<Rightarrow> skip)"

definition call_attempt :: "callee \<Rightarrow> attempt \<Rightarrow> step" where
  "call_attempt c a = steps [emit [Call c], case a of Succeeds \<Rightarrow> skip | Throws msg \<Rightarrow> throw msg]"

text \<open>The handlers a foreign registrar installs are tagged with its module and numbered.\<close>

definition foreign_layers :: "string \<Rightarrow> matcher list \<Rightarrow> layer list" where
  "foreign_layers m ms = map (\<lambda>(n, mt). Layer mt (Foreign m n)) (enumerate 0 ms)"

definition call_registrar :: "callee \<Rightarrow> string \<Rightarrow> registration \<Rightarrow> step" where
  "call_registrar c m reg =
     (case reg of
        Registered ms \<Rightarrow> steps [emit [Call c], use (foreign_layers m ms)]
      | Failed ms msg \<Rightarrow> steps [emit [Call c], use (foreign_layers m ms), throw msg])"

subsection \<open>The application before \<open>startServer\<close> runs\<close>

text \<open>
  The middlewares installed at module level, in their order. The lines the module prints
  before it calls \<open>startServer\<close> are not part of the trace, which starts empty.
\<close>

definition initial_app :: "layer list" where
  "initial_app =
     [Layer (Mount ''/'') (Library ''cors''),
      Layer (Mount ''/'') (Library ''express.json''),
      Layer (Mount ''/'') (Library ''express.urlencoded''),
      Layer (Mount ''/'') (Library ''session''),
      Layer (Mount ''/uploads'') (Library ''express.static(uploads)'')]"

definition initial :: state where
  "initial =
     \<lparr>app = initial_app, trace = [], mongoConnected = False,
      seeding_scheduled = False, listening = False, exit_code = None\<rparr>"

subsection \<open>Loading the modules\<close>

definition load :: "string \<Rightarrow> 'a import \<Rightarrow> step" where
  "load name imp =
     try_catch
       (steps [emit [Console Log (''- Loading '' @ name @ '' module...'')],
               import_module imp,
               emit [Console Log (name @ '' module loaded'')]])
       (\<lambda>msg. emit [Console Warn (name @ '' module not found: '' @ msg)])"

definition load_modules :: "env \<Rightarrow> step" where
  "load_modules e =
     steps [emit [Console Log ''Loading modules...''],
            load ''MongoDB connection'' (mongodb_connection e),
            load ''MongoDB routes'' (mongodb_routes e),
            load ''Evidence routes'' (evidence_routes_module e),
            load ''Custodial routes'' (custodial_routes e),
            load ''Vite'' (vite e),
            load ''Seed geofiles'' (seed_geofiles e)]"

subsection \<open>Connecting\<close>

definition set_connected :: "bool \<Rightarrow> step" where
  "set_connected b s = (s\<lparr>mongoConnected := b\<rparr>, None)"

definition fallback_mode :: "event" where
  "fallback_mode = Console Log ''Starting server in fallback mode without database...''"

definition connect :: "env \<Rightarrow> step" where
  "connect e =
     steps [emit [Console Log ''Attempting MongoDB connection...''],
            case loaded (mongodb_connection e) of
              Some connectToMongoDB \<Rightarrow>
                try_catch
                  (steps [emit [Console Log ''- Calling connectToMongoDB...''],
                          call_attempt ConnectToMongoDB connectToMongoDB,
                          emit [Console Log ''MongoDB connected successfully!''],
                          set_connected True])
                  (\<lambda>msg. steps [emit [Console Warn (''MongoDB connection failed: '' @ msg),
                                      fallback_mode],
                                set_connected False])
            | None \<Rightarrow>
                steps [emit [Console Warn ''MongoDB connection module not available'',
                             fallback_mode],
                       set_connected False]]"

subsection \<open>Registering the routes\<close>

text \<open>\<open>if (mongoConnected && f) { ... }\<close>\<close>

definition if_connected_and :: "'a option \<Rightarrow> ('a \<Rightarrow> step) \<Rightarrow> step" where
  "if_connected_and f block s =
     (case f of
        Some g \<Rightarrow> if mongoConnected s then block g s else skip s
      | None \<Rightarrow> skip s)"

text \<open>\<open>registerEvidenceRoutes\<close> of the evidence module.\<close>

definition registerEvidenceRoutes :: step where
  "registerEvidenceRoutes =
     steps [emit [Console Log ''Registering Evidence Routes...''],
            use evidence_routes,
            emit [Console Log ''Evidence Routes registered successfully'']]"

definition register_mongodb_routes :: "env \<Rightarrow> step" where
  "register_mongodb_routes e =
     if_connected_and (loaded (mongodb_routes e))
       (\<lambda>registerMongoDBRoutes.
          try_catch
            (steps [emit [Console Log ''- Registering MongoDB routes...''],
                    call_registrar RegisterMongoDBRoutes ''mongodb-routes'' registerMongoDBRoutes,
                    emit [Console Log ''MongoDB Routes registered successfully'']])
            (\<lambda>msg. emit [Console Warn (''Failed to register MongoDB routes: '' @ msg)]))"

definition register_evidence_routes :: "env \<Rightarrow> step" where
  "register_evidence_routes e =
     if_connected_and (loaded (evidence_routes_module e))
       (\<lambda>u.
          try_catch
            (steps [emit [Console Log ''- Registering Evidence Routes...''],
                    emit [Call RegisterEvidenceRoutes],
                    registerEvidenceRoutes,
                    emit [Console Log ''Evidence Routes registered successfully'']])
            (\<lambda>msg. emit [Console Warn (''Failed to register evidence routes: '' @ msg)]))"

definition register_custodial_routes :: "env \<Rightarrow> step" where
  "register_custodial_routes e =
     if_connected_and (loaded (custodial_routes e))
       (\<lambda>registerCustodialRoutes.
          try_catch
            (steps [emit [Console Log ''- Registering Custodial Routes...''],
                    call_registrar RegisterCustodialRoutes ''custodial-routes'' registerCustodialRoutes,
                    emit [Console Log ''Custodial Routes registered successfully'']])
            (\<lambda>msg. emit [Console Warn (''Failed to register custodial routes: '' @ msg)]))"

definition register_additional_routes :: "env \<Rightarrow> step" where
  "register_additional_routes e =
     try_catch
       (steps [import_module (api_routes e),
               case loaded (api_routes e) of
                 Some registerAdditionalRoutes \<Rightarrow>
                   steps [call_registrar RegisterAdditionalRoutes ''api-routes'' registerAdditionalRoutes,
                          emit [Console Log ''Additional routes loaded successfully'']]
               | None \<Rightarrow> skip])
       (\<lambda>msg. emit [Console Log ''Additional routes file not found - continuing without it''])"

definition health_route :: step where
  "health_route s = use [Layer (Route GET [Lit ''/api/health'']) (Health (mongoConnected s))] s"

definition fallback_route :: step where
  "fallback_route s =
     (if \<not> mongoConnected s then use [Layer (Route GET [Lit ''/api/'', Wild]) ServiceUnavailable] s
      else skip s)"

definition register_routes :: "env \<Rightarrow> step" where
  "register_routes e =
     steps [emit [Console Log ''Setting up Express routes...''],
            register_mongodb_routes e,
            register_evidence_routes e,
            register_custodial_routes e,
            register_additional_routes e,
            use [Layer (Mount ''/uploads'') (Library ''express.static(uploads)'')],
            health_route,
            fallback_route]"

subsection \<open>Serving the frontend\<close>

definition inline_fallback :: step where
  "inline_fallback s = use [Layer (Route GET [Wild]) (InlineHtml (mongoConnected s))] s"

definition frontend :: "env \<Rightarrow> step" where
  "frontend e =
     (if NODE_ENV e = Some ''production''
      then use [Layer (Mount ''/'') (Library ''express.static(buildPath)''),
                Layer (Route GET [Wild]) ProdIndex]
      else
        (case loaded (vite e) of
           Some setupVite \<Rightarrow>
             try_catch
               (steps [emit [Console Log ''- Setting up Vite development server...''],
                       call_registrar SetupVite ''vite'' setupVite,
                       emit [Console Log ''Vite development server setup complete'']])
               (\<lambda>msg. steps [emit [Console Warn (''Failed to setup Vite: '' @ msg)],
                             inline_fallback])
         | None \<Rightarrow> inline_fallback))"

subsection \<open>Seeding in the background\<close>

text \<open>
  \<open>setImmediate\<close> only schedules the seeder; \<open>seeder\<close> is what the scheduled function does
  when the event loop runs it.
\<close>

definition schedule_seeding :: step where
  "schedule_seeding s = (if mongoConnected s then (s\<lparr>seeding_scheduled := True\<rparr>, None) else skip s)"

definition seed_admin_user :: "env \<Rightarrow> step" where
  "seed_admin_user e =
     try_catch
       (steps [emit [Console Log ''Seeding admin user in background...''],
               import_module (seed_admin e),
               case loaded (seed_admin e) of
                 Some seedAdminUser \<Rightarrow> call_attempt SeedAdminUser seedAdminUser
               | None \<Rightarrow> throw ''seedAdminUser is not a function''])
       (\<lambda>msg. emit [Console Warn (''Failed to seed admin user: '' @ msg)])"

definition seeder :: "env \<Rightarrow> step" where
  "seeder e =
     try_catch
       (steps [case loaded (seed_geofiles e) of
                 Some seedGeofiles \<Rightarrow>
                   steps [emit [Console Log ''Seeding sample geofiles in background...''],
                          call_attempt SeedGeofiles seedGeofiles]
               | None \<Rightarrow> skip,
               seed_admin_user e])
       (\<lambda>msg. emit [Console Warn (''Failed to seed data: '' @ msg)])"

subsection \<open>Listening\<close>

text \<open>
  The white space and line terminators of ECMAScript, in UTF-8: tab, line feed, vertical
  tab, form feed, carriage return, space, U+00A0, U+1680, U+2000 to U+200A, U+2028, U+2029,
  U+202F, U+205F, U+3000 and U+FEFF.
\<close>

definition white_space :: "string list" where
  "white_space =
     [[CHR 0x09], [CHR 0x0A], [CHR 0x0B], [CHR 0x0C], [CHR 0x0D], [CHR 0x20],
      [CHR 0xC2, CHR 0xA0], [CHR 0xE1, CHR 0x9A, CHR 0x80],
      [CHR 0xE2, CHR 0x80, CHR 0x80], [CHR 0xE2, CHR 0x80, CHR 0x81],
      [CHR 0xE2, CHR 0x80, CHR 0x82], [CHR 0xE2, CHR 0x80, CHR 0x83],
      [CHR 0xE2, CHR 0x80, CHR 0x84], [CHR 0xE2, CHR 0x80, CHR 0x85],
      [CHR 0xE2, CHR 0x80, CHR 0x86], [CHR 0xE2, CHR 0x80, CHR 0x87],
      [CHR 0xE2, CHR 0x80, CHR 0x88], [CHR 0xE2, CHR 0x80, CHR 0x89],
      [CHR 0xE2, CHR 0x80, CHR 0x8A], [CHR 0xE2, CHR 0x80, CHR 0xA8],
      [CHR 0xE2, CHR 0x80, CHR 0xA9], [CHR 0xE2, CHR 0x80, CHR 0xAF],
      [CHR 0xE2, CHR 0x81, CHR 0x9F], [CHR 0xE3, CHR 0x80, CHR 0x80],
      [CHR 0xEF, CHR 0xBB, CHR 0xBF]]"

text \<open>The string without the white space it begins with.\<close>

fun trimStart :: "string \<Rightarrow> string" where
  "trimStart (a # b # c # s) =
     (if [a] \<in> set white_space then trimStart (b # c # s)
      else if [a, b] \<in> set white_space then trimStart (c # s)
      else if [a, b, c] \<in> set white_space then trimStart s
      else a # b # c # s)"
| "trimStart [a, b] =
     (if [a] \<in> set white_space then trimStart [b]
      else if [a, b] \<in> set white_space then []
      else [a, b])"
| "trimStart [a] = (if [a] \<in> set white_space then [] else [a])"
| "trimStart [] = []"

definition digit_value :: "char \<Rightarrow> nat option" where
  "digit_value c = map_of (zip ''0123456789'' [0, 1, 2, 3, 4, 5, 6, 7, 8, 9]) c"

definition digits_value :: "string \<Rightarrow> nat" where
  "digits_value ds = foldl (\<lambda>a c. 10 * a + (case digit_value c of Some v \<Rightarrow> v | None \<Rightarrow> 0)) 0 ds"

text \<open>
  \<open>parseInt(s, 10)\<close>: leading white space is skipped, a sign is read, then the longest run
  of decimal digits; \<open>None\<close> is \<open>NaN\<close>, when there is no digit. The number is kept exact
  (JavaScript rounds one of more than fifteen digits, which is no port either way).
\<close>

definition parse_unsigned :: "string \<Rightarrow> nat option" where
  "parse_unsigned s =
     (let ds = takeWhile (\<lambda>c. digit_value c \<noteq> None) s
      in if ds = [] then None else Some (digits_value ds))"

definition parseInt :: "string \<Rightarrow> int option" where
  "parseInt s =
     (case trimStart s of
        [] \<Rightarrow> None
      | c # cs \<Rightarrow>
          if c = CHR ''-'' then map_option (\<lambda>n. - int n) (parse_unsigned cs)
          else if c = CHR ''+'' then map_option int (parse_unsigned cs)
          else map_option int (parse_unsigned (c # cs)))"

text \<open>\<open>parseInt(process.env.PORT || '5000', 10)\<close>\<close>

definition port :: "env \<Rightarrow> int option" where
  "port e = parseInt (case PORT e of None \<Rightarrow> ''5000'' | Some p \<Rightarrow> if p = [] then ''5000'' else p)"

text \<open>The number as a template literal shows it, for a number of fewer than 22 digits.\<close>

definition port_text :: "int option \<Rightarrow> string" where
  "port_text p =
     (case p of
        None \<Rightarrow> ''NaN''
      | Some n \<Rightarrow> if n < 0 then ''-'' @ String (nat (- n)) else String (nat n))"

text \<open>
  Node's \<open>server.listen\<close> throws at once on a port that is not an integer from 0 to 65535;
  \<open>bad_port\<close> is the message of that error, as Node 18 and later word it.
\<close>

definition bad_port :: "int option \<Rightarrow> string" where
  "bad_port p =
     ''options.port should be >= 0 and < 65536. Received type number ('' @ port_text p @ '').''"

definition valid_port :: "int option \<Rightarrow> bool" where
  "valid_port p = (case p of None \<Rightarrow> False | Some n \<Rightarrow> 0 \<le> n \<and> n < 65536)"

definition listen :: "env \<Rightarrow> step" where
  "listen e =
     steps [emit [Console Log ''Starting HTTP server...'',
                  Console Log (''Attempting to bind server to port '' @ port_text (port e) @ ''...''),
                  Call Listen],
            if valid_port (port e) then skip
            else throw (bad_port (port e))]"

subsection \<open>\<open>startServer\<close> and the process\<close>

definition startServer :: "env \<Rightarrow> step" where
  "startServer e =
     steps [emit [Console Log ''Starting server initialization...''],
            load_modules e,
            connect e,
            register_routes e,
            frontend e,
            schedule_seeding,
            listen e]"

text \<open>The callback of \<open>server.listen\<close>, run once the socket is bound.\<close>

definition on_listening :: "env \<Rightarrow> state \<Rightarrow> state" where
  "on_listening e s =
     s\<lparr>listening := True,
       trace := trace s @
         [Console Log ''Police Management System is LIVE!'',
          Console Log (''Server URL: http://0.0.0.0:'' @ port_text (port e)),
          Console Log (''Environment: '' @
             (case NODE_ENV e of None \<Rightarrow> ''development''
              | Some n \<Rightarrow> if n = [] then ''development'' else n)),
          Console Log (''MongoDB: '' @
             (if mongoConnected s then ''Connected'' else ''Disconnected (Fallback Mode)'')),
          Console Log (''Routes: '' @
             (if mongoConnected s then ''Full API Available'' else ''Limited (No Database)'')),
          Console Log (''Health Check: http://0.0.0.0:'' @ port_text (port e) @ ''/api/health'')]
         @ (if \<not> mongoConnected s
            then [Console Log ''Database Status: Update MONGODB_URI in .env to enable full functionality'']
            else [])
         @ [Console Log ''Server startup complete - ready to accept connections!'']\<rparr>"

text \<open>The handler of the server's \<open>error\<close> event; \<open>process.exit(1)\<close> ends the process.\<close>

definition on_error :: "env \<Rightarrow> string \<Rightarrow> string \<Rightarrow> state \<Rightarrow> state" where
  "on_error e c msg s =
     s\<lparr>exit_code := Some 1,
       trace := trace s @
         [Console Err (''Server error: '' @ msg)]
         @ (if c = ''EADDRINUSE''
            then [Console Err (''Port '' @ port_text (port e) @ '' is already in use'')]
            else [])\<rparr>"

text \<open>
  \<open>startServer().catch(...)\<close>, for an error that leaves \<open>startServer\<close>; the text of the
  stack is left out.
\<close>

definition on_fatal :: "string \<Rightarrow> state \<Rightarrow> state" where
  "on_fatal msg s =
     s\<lparr>exit_code := Some 1,
       trace := trace s @
         [Console Err (''Fatal error during server startup: '' @ msg),
          Console Err ''Stack trace:'',
          Console Log ''Server failed to start. Check the error above for details.'']\<rparr>"

definition main :: "env \<Rightarrow> state" where
  "main e =
     (case startServer e initial of
        (s, Some msg) \<Rightarrow> on_fatal msg s
      | (s, None) \<Rightarrow>
          (case bind e of
             None \<Rightarrow> on_listening e s
           | Some (c, msg) \<Rightarrow> on_error e c msg s))"

section \<open>Notions used in the statements\<close>

text \<open>A string that can stand as one segment of a path: not empty, without \<open>/\<close>.\<close>

definition segment :: "string \<Rightarrow> bool" where
  "segment i = (i \<noteq> [] \<and> CHR ''/'' \<notin> set i)"

text \<open>
  An id written into a path: \<open>%\<close> and \<open>/\<close> are escaped (\<open>encodeURIComponent\<close> escapes these
  and more), so that the id is one segment of the path and the segment decodes to the id.
\<close>

fun escape :: "string \<Rightarrow> string" where
  "escape [] = []"
| "escape (c # cs) =
     (if c = CHR ''%'' then ''%25'' @ escape cs
      else if c = CHR ''/'' then ''%2F'' @ escape cs
      else c # escape cs)"

text \<open>
  What becomes of the outcome of the last layer: to \<open>next()\<close> Express answers 404 itself.
\<close>

definition settle :: "outcome \<times> db \<Rightarrow> outcome \<times> db" where
  "settle p = (case p of (Next, d) \<Rightarrow> (Respond 404 DefaultNotFound, d) | _ \<Rightarrow> p)"

text \<open>
  A path under \<open>/api/\<close> (the letters in either case, as the routes match them) whose
  remainder cannot be decoded.
\<close>

definition undecodable_api :: "string \<Rightarrow> bool" where
  "undecodable_api p = (map lower (take 5 p) = ''/api/'' \<and> decodeURIComponent (drop 5 p) = None)"

text \<open>An object has each of its properties once.\<close>

definition object :: "obj \<Rightarrow> bool" where
  "object ob = distinct (map fst ob)"

text \<open>The database accepts the document: \<open>insertOne\<close> does not fail on it.\<close>

definition insertable :: "db \<Rightarrow> obj \<Rightarrow> bool" where
  "insertable d doc = (case insertOne doc d of Inl e \<Rightarrow> False | Inr p \<Rightarrow> True)"

text \<open>
  The document that the create handler hands to \<open>insertOne\<close> for a request body without
  an evidence number: the body with the collecting officer (\<open>Unknown Officer\<close> unless the
  body names one), the generated evidence number and the two dates.
\<close>

definition evidence_document :: "obj \<Rightarrow> db \<Rightarrow> obj" where
  "evidence_document b d =
     assign ''updatedAt'' (JStr (now d))
       (assign ''createdAt'' (JStr (now d))
          (assign ''evidenceNumber'' (JStr (evidence_number (countDocuments d)))
             (assign ''collectedBy''
                (case getprop b ''collectedBy'' of
                   None \<Rightarrow> JStr ''Unknown Officer''
                 | Some v \<Rightarrow> if truthy v then v else JStr ''Unknown Officer'')
                b)))"

text \<open>
  The \<open>_id\<close> a body brings along, if any, has a string form (\<open>toString\<close> does not throw on
  it); a generated \<open>_id\<close> always has one.
\<close>

definition printable_id :: "obj \<Rightarrow> bool" where
  "printable_id b =
     (case getprop b ''_id'' of
        None \<Rightarrow> True
      | Some JNull \<Rightarrow> True
      | Some i \<Rightarrow> toString i \<noteq> None)"

text \<open>
  A request body with the three required fields (truthy, as the handler tests them) and
  without an evidence number of its own.
\<close>

definition required :: "obj \<Rightarrow> bool" where
  "required b =
     (truthy_prop (getprop b ''type'') \<and> truthy_prop (getprop b ''description'')
      \<and> truthy_prop (getprop b ''location'') \<and> \<not> truthy_prop (getprop b ''evidenceNumber''))"

text \<open>The body of the 201 answer around the created evidence \<open>t\<close>.\<close>

definition created :: "obj \<Rightarrow> content" where
  "created t =
     Json (JObj [(''success'', JBool True), (''evidence'', JObj t),
                 (''message'', JStr ''Evidence created successfully'')])"

text \<open>
  The number written after \<open>EV-\<close>, and the pattern \<open>EV-\d{6}\<close>: the prefix and exactly
  six decimal digits.
\<close>

definition suffix_value :: "string \<Rightarrow> nat" where
  "suffix_value s = digits_value (drop 3 s)"

definition matches_EV6 :: "string \<Rightarrow> bool" where
  "matches_EV6 s =
     (take 3 s = ''EV-'' \<and> length (drop 3 s) = 6 \<and> list_all (\<lambda>c. digit_value c \<noteq> None) (drop 3 s))"

section \<open>Inputs used in the examples\<close>

text \<open>
  Library middlewares and foreign handlers that call \<open>next()\<close> on every request, and the
  same with a \<open>res.sendFile\<close> that finds the built entry document; an empty collection and
  one that holds a document with the id \<open>"a"\<close>, on a server that refuses nothing of
  its own; a request body, and one whose \<open>type\<close> is the empty string; an id that is a
  valid ObjectId string.
\<close>

definition pass_on :: ext where
  "pass_on h r d = (Next, d)"

definition serving :: ext where
  "serving h r d =
     (if h = index_html then (Respond 200 (SendFile ''../dist/public/index.html''), d) else (Next, d))"

definition empty_db :: db where
  "empty_db = \<lparr>evidence = [], next_id = 1, now = ''2026-01-01T00:00:00.000Z'',
                refuses = (\<lambda>docs doc. None)\<rparr>"

definition taken_db :: db where
  "taken_db = \<lparr>evidence = [[(''_id'', JStr ''a''), (''evidenceNumber'', JStr ''EV-000001'')]],
               next_id = 1, now = ''2026-01-01T00:00:00.000Z'',
               refuses = (\<lambda>docs doc. None)\<rparr>"

definition firearm :: obj where
  "firearm = [(''type'', JStr ''firearm''), (''description'', JStr ''revolver''), (''location'', JStr ''locker 4'')]"

definition blank_type :: obj where
  "blank_type = [(''type'', JStr []), (''description'', JStr ''revolver''), (''location'', JStr ''locker 4'')]"

definition valid_id :: string where
  "valid_id = ''0123456789abcdef01234567''"

section \<open>Closed forms of the startup sequence\<close>

text \<open>
  What each startup step adds to the application and to the trace, written as a function of
  the environment (and of \<open>mongoConnected\<close>). The lemmas of the next sections prove that
  the steps do exactly this; the closed forms serve the proofs only.
\<close>

definition connected :: "env \<Rightarrow> bool" where
  "connected e = (loaded (mongodb_connection e) = Some Succeeds)"

definition installed :: "string \<Rightarrow> registration \<Rightarrow> layer list" where
  "installed m reg =
     (case reg of Registered ms \<Rightarrow> foreign_layers m ms | Failed ms msg \<Rightarrow> foreign_layers m ms)"

definition load_trace :: "string \<Rightarrow> 'a import \<Rightarrow> event list" where
  "load_trace name imp =
     [Console Log (''- Loading '' @ name @ '' module...''),
      case imp of
        ImportFailed msg \<Rightarrow> Console Warn (name @ '' module not found: '' @ msg)
      | Imported x \<Rightarrow> Console Log (name @ '' module loaded'')]"

definition connect_trace :: "env \<Rightarrow> event list" where
  "connect_trace e =
     Console Log ''Attempting MongoDB connection...'' #
     (case loaded (mongodb_connection e) of
        None \<Rightarrow> [Console Warn ''MongoDB connection module not available'', fallback_mode]
      | Some Succeeds \<Rightarrow>
          [Console Log ''- Calling connectToMongoDB...'', Call ConnectToMongoDB,
           Console Log ''MongoDB connected successfully!'']
      | Some (Throws msg) \<Rightarrow>
          [Console Log ''- Calling connectToMongoDB...'', Call ConnectToMongoDB,
           Console Warn (''MongoDB connection failed: '' @ msg), fallback_mode])"

definition registrar_trace :: "callee \<Rightarrow> string \<Rightarrow> string \<Rightarrow> string \<Rightarrow> registration \<Rightarrow> event list" where
  "registrar_trace c before done failed reg =
     [Console Log before, Call c,
      case reg of
        Registered ms \<Rightarrow> Console Log done
      | Failed ms msg \<Rightarrow> Console Warn (failed @ msg)]"

definition feature_layers :: "env \<Rightarrow> bool \<Rightarrow> layer list" where
  "feature_layers e b =
     (if b
      then (case loaded (mongodb_routes e) of
              None \<Rightarrow> [] | Some reg \<Rightarrow> installed ''mongodb-routes'' reg)
         @ (case loaded (evidence_routes_module e) of
              None \<Rightarrow> [] | Some u \<Rightarrow> evidence_routes)
         @ (case loaded (custodial_routes e) of
              None \<Rightarrow> [] | Some reg \<Rightarrow> installed ''custodial-routes'' reg)
      else [])"

definition feature_trace :: "env \<Rightarrow> bool \<Rightarrow> event list" where
  "feature_trace e b =
     (if b
      then (case loaded (mongodb_routes e) of
              None \<Rightarrow> []
            | Some reg \<Rightarrow>
                registrar_trace RegisterMongoDBRoutes
                  ''- Registering MongoDB routes...'' ''MongoDB Routes registered successfully''
                  ''Failed to register MongoDB routes: '' reg)
         @ (case loaded (evidence_routes_module e) of
              None \<Rightarrow> []
            | Some u \<Rightarrow>
                [Console Log ''- Registering Evidence Routes...'', Call RegisterEvidenceRoutes,
                 Console Log ''Registering Evidence Routes...'',
                 Console Log ''Evidence Routes registered successfully'',
                 Console Log ''Evidence Routes registered successfully''])
         @ (case loaded (custodial_routes e) of
              None \<Rightarrow> []
            | Some reg \<Rightarrow>
                registrar_trace RegisterCustodialRoutes
                  ''- Registering Custodial Routes...'' ''Custodial Routes registered successfully''
                  ''Failed to register custodial routes: '' reg)
      else [])"

definition additional_layers :: "env \<Rightarrow> layer list" where
  "additional_layers e =
     (case loaded (api_routes e) of None \<Rightarrow> [] | Some reg \<Rightarrow> installed ''api-routes'' reg)"

definition additional_trace :: "env \<Rightarrow> event list" where
  "additional_trace e =
     (case api_routes e of
        ImportFailed msg \<Rightarrow> [Console Log ''Additional routes file not found - continuing without it'']
      | Imported None \<Rightarrow> []
      | Imported (Some reg) \<Rightarrow>
          [Call RegisterAdditionalRoutes,
           case reg of
             Registered ms \<Rightarrow> Console Log ''Additional routes loaded successfully''
           | Failed ms msg \<Rightarrow> Console Log ''Additional routes file not found - continuing without it''])"

definition fixed_layers :: "bool \<Rightarrow> layer list" where
  "fixed_layers b =
     [Layer (Mount ''/uploads'') (Library ''express.static(uploads)''),
      Layer (Route GET [Lit ''/api/health'']) (Health b)]
     @ (if b then [] else [Layer (Route GET [Lit ''/api/'', Wild]) ServiceUnavailable])"

definition frontend_layers :: "env \<Rightarrow> bool \<Rightarrow> layer list" where
  "frontend_layers e b =
     (if NODE_ENV e = Some ''production''
      then [Layer (Mount ''/'') (Library ''express.static(buildPath)''),
            Layer (Route GET [Wild]) ProdIndex]
      else
        (case loaded (vite e) of
           None \<Rightarrow> [Layer (Route GET [Wild]) (InlineHtml b)]
         | Some (Registered ms) \<Rightarrow> foreign_layers ''vite'' ms
         | Some (Failed ms msg) \<Rightarrow>
             foreign_layers ''vite'' ms @ [Layer (Route GET [Wild]) (InlineHtml b)]))"

definition frontend_trace :: "env \<Rightarrow> event list" where
  "frontend_trace e =
     (if NODE_ENV e = Some ''production'' then []
      else
        (case loaded (vite e) of
           None \<Rightarrow> []
         | Some (Registered ms) \<Rightarrow>
             [Console Log ''- Setting up Vite development server...'', Call SetupVite,
              Console Log ''Vite development server setup complete'']
         | Some (Failed ms msg) \<Rightarrow>
             [Console Log ''- Setting up Vite development server...'', Call SetupVite,
              Console Warn (''Failed to setup Vite: '' @ msg)]))"

definition loading_trace :: "env \<Rightarrow> event list" where
  "loading_trace e =
     Console Log ''Starting server initialization...'' #
     Console Log ''Loading modules...'' #
     load_trace ''MongoDB connection'' (mongodb_connection e) @
     load_trace ''MongoDB routes'' (mongodb_routes e) @
     load_trace ''Evidence routes'' (evidence_routes_module e) @
     load_trace ''Custodial routes'' (custodial_routes e) @
     load_trace ''Vite'' (vite e) @
     load_trace ''Seed geofiles'' (seed_geofiles e)"

definition listen_trace :: "env \<Rightarrow> event list" where
  "listen_trace e =
     [Console Log ''Starting HTTP server...'',
      Console Log (''Attempting to bind server to port '' @ port_text (port e) @ ''...''),
      Call Listen]"

definition startup_app :: "env \<Rightarrow> layer list" where
  "startup_app e =
     initial_app @ feature_layers e (connected e) @ additional_layers e
     @ fixed_layers (connected e) @ frontend_layers e (connected e)"

definition startup_trace :: "env \<Rightarrow> event list" where
  "startup_trace e =
     loading_trace e @ connect_trace e
     @ Console Log ''Setting up Express routes...'' # feature_trace e (connected e)
     @ additional_trace e @ frontend_trace e @ listen_trace e"

text \<open>
  The three frontend strategies. A strategy is registered when the application holds a
  handler of it: the production catch-all, a handler that the setup call of the bundler
  installed, an inline page handler.
\<close>

datatype strategy = Production | Bundler | Inline

fun is_inline :: "layer \<Rightarrow> bool" where
  "is_inline (Layer m h) = (case h of InlineHtml c \<Rightarrow> m = Route GET [Wild] | _ \<Rightarrow> False)"

fun is_bundler :: "layer \<Rightarrow> bool" where
  "is_bundler (Layer m h) = (case h of Foreign mo n \<Rightarrow> mo = ''vite'' | _ \<Rightarrow> False)"

definition active :: "state \<Rightarrow> strategy \<Rightarrow> bool" where
  "active s st =
     (case st of
        Production \<Rightarrow> Layer (Route GET [Wild]) ProdIndex \<in> set (app s)
      | Bundler \<Rightarrow> list_ex is_bundler (app s)
      | Inline \<Rightarrow> list_ex is_inline (app s))"

text \<open>An environment in which every optional module is missing.\<close>

definition bare_env :: env where
  "bare_env =
     \<lparr>NODE_ENV = None, PORT = None,
      mongodb_connection = ImportFailed ''Cannot find module'',
      mongodb_routes = ImportFailed ''Cannot find module'',
      evidence_routes_module = ImportFailed ''Cannot find module'',
      custodial_routes = ImportFailed ''Cannot find module'',
      vite = ImportFailed ''Cannot find module'',
      seed_geofiles = ImportFailed ''Cannot find module'',
      api_routes = ImportFailed ''Cannot find module'',
      seed_admin = ImportFailed ''Cannot find module'',
      bind = None\<rparr>"

text \<open>What the process logs after \<open>startServer\<close> has returned or thrown.\<close>

definition final_trace :: "env \<Rightarrow> event list" where
  "final_trace e =
     (if valid_port (port e)
      then (case bind e of
              None \<Rightarrow>
                [Console Log ''Police Management System is LIVE!'',
                 Console Log (''Server URL: http://0.0.0.0:'' @ port_text (port e)),
                 Console Log (''Environment: '' @
                    (case NODE_ENV e of None \<Rightarrow> ''development''
                     | Some n \<Rightarrow> if n = [] then ''development'' else n)),
                 Console Log (''MongoDB: '' @
                    (if connected e then ''Connected'' else ''Disconnected (Fallback Mode)'')),
                 Console Log (''Routes: '' @
                    (if connected e then ''Full API Available'' else ''Limited (No Database)'')),
                 Console Log (''Health Check: http://0.0.0.0:'' @ port_text (port e) @ ''/api/health'')]
                @ (if \<not> connected e
                   then [Console Log ''Database Status: Update MONGODB_URI in .env to enable full functionality'']
                   else [])
                @ [Console Log ''Server startup complete - ready to accept connections!'']
            | Some (c, msg) \<Rightarrow>
                Console Err (''Server error: '' @ msg)
                # (if c = ''EADDRINUSE''
                   then [Console Err (''Port '' @ port_text (port e) @ '' is already in use'')]
                   else []))
      else [Console Err (''Fatal error during server startup: '' @ bad_port (port e)),
            Console Err ''Stack trace:'',
            Console Log ''Server failed to start. Check the error above for details.''])"


section \<open>Environments used in the examples\<close>

text \<open>
  \<open>bare_env\<close> above has no optional module at all. The others differ from it in the
  fields shown. \<open>registrars\<close> lists the functions that register routes.
\<close>

definition refused_env :: env where
  "refused_env = bare_env\<lparr>mongodb_connection := Imported (Some (Throws ''connect ECONNREFUSED''))\<rparr>"

definition failing_routes_env :: env where
  "failing_routes_env =
     bare_env\<lparr>mongodb_connection := Imported (Some Succeeds),
              mongodb_routes := Imported (Some (Failed [] ''upload is not defined'')),
              evidence_routes_module := Imported (Some ()),
              custodial_routes := Imported (Some (Failed [] ''app.get is not a function''))\<rparr>"

definition seed_failure_env :: env where
  "seed_failure_env =
     bare_env\<lparr>mongodb_connection := Imported (Some Succeeds),
              seed_geofiles := Imported (Some (Throws ''geofiles collection missing'')),
              seed_admin := Imported (Some Succeeds)\<rparr>"

definition port_in_use_env :: env where
  "port_in_use_env = bare_env\<lparr>bind := Some (''EADDRINUSE'', ''listen EADDRINUSE: address already in use 0.0.0.0:5000'')\<rparr>"

definition vite_failure_env :: env where
  "vite_failure_env = bare_env\<lparr>vite := Imported (Some (Failed [] ''failed to load config''))\<rparr>"

text \<open>
  A bundler whose setup call installs its middleware and returns, and one whose setup call
  installs its middleware and then throws.
\<close>

definition vite_env :: env where
  "vite_env = bare_env\<lparr>vite := Imported (Some (Registered [Mount ''/'']))\<rparr>"

definition vite_half_way_env :: env where
  "vite_half_way_env =
     bare_env\<lparr>vite := Imported (Some (Failed [Mount ''/''] ''listen EADDRINUSE: port 24678''))\<rparr>"

definition registrars :: "callee list" where
  "registrars = [RegisterMongoDBRoutes, RegisterEvidenceRoutes, RegisterCustodialRoutes, RegisterAdditionalRoutes]"


text \<open>The fallback route of the entry module, and a connected production environment.\<close>

definition catch_all :: layer where
  "catch_all = Layer (Route GET [Lit ''/api/'', Wild]) ServiceUnavailable"

definition production_env :: env where
  "production_env =
     bare_env\<lparr>NODE_ENV := Some ''production'', mongodb_connection := Imported (Some Succeeds)\<rparr>"

section \<open>Routing lemmas\<close>

lemma first_some_append:
  "first_some (xs @ ys) = (case first_some xs of None \<Rightarrow> first_some ys | Some x \<Rightarrow> Some x)"
  by (induction xs rule: first_some.induct) simp_all

lemma first_some_all_None: "(\<forall>x \<in> set xs. x = None) \<Longrightarrow> first_some xs = None"
  by (induction xs rule: first_some.induct) simp_all

lemma first_some_last:
  assumes "a \<le> b" and "P b" and "\<forall>k. a \<le> k \<and> k < b \<longrightarrow> f k = None"
  shows "first_some (map f (filter P [a ..< Suc b])) = f b"
proof -
  have "first_some (map f (filter P [a ..< b])) = None"
    using assms(3) by (intro first_some_all_None) auto
  moreover have "first_some [f b] = f b" by (cases "f b") simp_all
  ultimately show ?thesis using assms(1,2) by (simp add: first_some_append)
qed

lemma boundary_Nil: "boundary []"
  by (simp add: boundary_def)

lemma pmatch_end_None: "s \<noteq> [] \<Longrightarrow> CHR ''/'' \<notin> set s \<Longrightarrow> pmatch [] s = None"
  by (cases s) auto

lemma pmatch_Param_segment:
  assumes "segment i"
  shows "pmatch [Param n] i = Some [(n, i)]"
proof -
  have "\<forall>c \<in> set i. c \<noteq> CHR ''/''"
    using assms by (auto simp: segment_def)
  then have tw: "takeWhile (\<lambda>c. c \<noteq> CHR ''/'') i = i"
    by (simp only: takeWhile_eq_all_conv)
  let ?f = "\<lambda>k. map_option (Cons (n, take k i)) (pmatch [] (drop k i))"
  have none: "\<forall>k. 1 \<le> k \<and> k < length i \<longrightarrow> ?f k = None"
  proof (intro allI impI)
    fix k assume k: "1 \<le> k \<and> k < length i"
    have "drop k i \<noteq> []" using k by simp
    moreover have "CHR ''/'' \<notin> set (drop k i)"
      using assms by (auto simp: segment_def dest: in_set_dropD)
    ultimately have "pmatch [] (drop k i) = None" by (rule pmatch_end_None)
    then show "?f k = None" by (simp del: pmatch.simps)
  qed
  have len: "1 \<le> length i" using assms by (cases i) (simp_all add: segment_def)
  have fin: "boundary (drop (length i) i)" by (simp add: boundary_Nil)
  have "pmatch [Param n] i =
          first_some (map ?f (filter (\<lambda>k. boundary (drop k i)) [1 ..< Suc (length i)]))"
    by (simp add: tw)
  also have "\<dots> = ?f (length i)"
    using first_some_last [of 1 "length i" "\<lambda>k. boundary (drop k i)" ?f, OF len fin none] .
  also have "\<dots> = Some [(n, i)]" by simp
  finally show ?thesis .
qed

lemma evidence_item_path:
  assumes "segment i"
  shows "pmatch [Lit ''/api/evidence/'', Param ''id''] (''/api/evidence/'' @ i) = Some [(''id'', i)]"
  using pmatch_Param_segment [OF assms, of "''id''"] by simp

lemma evidence_list_path:
  assumes "segment i"
  shows "pmatch [Lit ''/api/evidence''] (''/api/evidence/'' @ i) = None"
  using assms by (cases i) (auto simp: segment_def)

lemma valid_segment: "ObjectId_valid i \<Longrightarrow> segment i"
proof -
  assume v: "ObjectId_valid i"
  have "hex_value (CHR ''/'') = None" by (simp add: hex_value_def lower_def)
  then have "CHR ''/'' \<notin> set i"
    using v by (auto simp: ObjectId_valid_def list_all_iff)
  moreover have "i \<noteq> []" using v by (auto simp: ObjectId_valid_def)
  ultimately show ?thesis by (simp add: segment_def)
qed

lemma unescape_plain: "CHR ''%'' \<notin> set s \<Longrightarrow> unescape s = Some (map Plain s)"
  by (induction s) auto

lemma well_formed_plain: "well_formed [] (map Plain s)"
  by (induction s) auto

lemma decode_plain: "CHR ''%'' \<notin> set s \<Longrightarrow> decodeURIComponent s = Some s"
  by (simp add: decodeURIComponent_def unescape_plain well_formed_plain comp_def)

lemma decode_valid: "ObjectId_valid i \<Longrightarrow> decodeURIComponent i = Some i"
proof -
  assume v: "ObjectId_valid i"
  have "hex_value (CHR ''%'') = None" by (simp add: hex_value_def lower_def)
  then have "CHR ''%'' \<notin> set i"
    using v by (auto simp: ObjectId_valid_def list_all_iff)
  then show ?thesis by (rule decode_plain)
qed

lemma unescape_escape:
  "unescape (escape i) =
     Some (map (\<lambda>c. if c = CHR ''%'' then Escaped 37 else if c = CHR ''/'' then Escaped 47 else Plain c) i)"
  by (induction i) (simp_all add: hex_value_def lower_def)

lemma well_formed_escape:
  "well_formed []
     (map (\<lambda>c. if c = CHR ''%'' then Escaped 37 else if c = CHR ''/'' then Escaped 47 else Plain c) i)"
  by (induction i) simp_all

lemma decode_escape: "decodeURIComponent (escape i) = Some i"
proof -
  have "char_of (37 :: nat) = CHR ''%''" "char_of (47 :: nat) = CHR ''/''"
    by (simp_all add: char_of_def bit_iff_odd)
  then have "map char_of_piece
     (map (\<lambda>c. if c = CHR ''%'' then Escaped 37 else if c = CHR ''/'' then Escaped 47 else Plain c) i) = i"
    by (induction i) simp_all
  then show ?thesis
    by (simp add: decodeURIComponent_def unescape_escape well_formed_escape)
qed

lemma segment_escape: "i \<noteq> [] \<Longrightarrow> segment (escape i)"
proof -
  have "CHR ''/'' \<notin> set (escape i)" by (induction i) simp_all
  moreover assume "i \<noteq> []"
  then have "escape i \<noteq> []" by (cases i) simp_all
  ultimately show ?thesis by (simp add: segment_def)
qed

lemma dispatch_append:
  "falls_through x pre r d = Some d' \<Longrightarrow> dispatch x (pre @ ls) r d = dispatch x ls r d'"
proof (induction pre arbitrary: d)
  case Nil
  then show ?case by simp
next
  case (Cons l pre)
  obtain m h where l: "l = Layer m h" by (cases l)
  show ?case
  proof (cases "matches m r")
    case Unmatched
    with Cons l show ?thesis by simp
  next
    case Undecodable
    with Cons.prems l show ?thesis by simp
  next
    case (Matched ps)
    obtain ou d1 where ru: "run x h ps r d = (ou, d1)" by (cases "run x h ps r d")
    with Cons.prems l Matched have nx: "ou = Next" and ft: "falls_through x pre r d1 = Some d'"
      by (cases ou; simp)+
    from Cons.IH [OF ft] l Matched ru nx show ?thesis by simp
  qed
qed

lemma answered:
  "fst p \<noteq> Next \<Longrightarrow>
     (case p of (Next, d') \<Rightarrow> f d' | (Respond st c, d') \<Rightarrow> (Respond st c, d')
              | (NoResponse, d') \<Rightarrow> (NoResponse, d')) = p"
  by (cases p; cases "fst p") auto

lemma get_evidence_by_id_answers: "fst (get_evidence_by_id i d) \<noteq> Next"
  by (simp add: get_evidence_by_id_def split: sum.splits option.splits)

lemma update_evidence_answers: "fst (update_evidence i b d) \<noteq> Next"
  by (simp add: update_evidence_def split: sum.splits option.splits prod.splits)

lemma delete_evidence_answers: "fst (delete_evidence i d) \<noteq> Next"
  by (simp add: delete_evidence_def split: sum.splits option.splits prod.splits)

lemma create_evidence_answers: "fst (create_evidence b d) \<noteq> Next"
  by (simp add: create_evidence_def Let_def split: sum.splits option.splits prod.splits)

lemma route_evidence_item:
  assumes "segment s" and "decodeURIComponent s = Some i"
    and "req_path r = ''/api/evidence/'' @ s"
  shows "dispatch x (evidence_routes @ post) r d =
     (case req_method r of
        GET \<Rightarrow> get_evidence_by_id i d
      | HEAD \<Rightarrow> get_evidence_by_id i d
      | PUT \<Rightarrow> update_evidence i (body r) d
      | DELETE \<Rightarrow> delete_evidence i d
      | POST \<Rightarrow> dispatch x post r d
      | PATCH \<Rightarrow> dispatch x post r d)"
  using evidence_item_path [OF assms(1)] evidence_list_path [OF assms(1)] assms(2,3)
  by (cases "req_method r")
     (simp_all add: evidence_routes_def method_matches_def answered
        get_evidence_by_id_answers update_evidence_answers delete_evidence_answers
        del: pmatch.simps)

lemma invalid_ObjectId: "\<not> ObjectId_valid i \<Longrightarrow> \<exists>e. ObjectId i = Inl e"
  by (simp add: ObjectId_def)

section \<open>Objects, insertion and evidence numbers\<close>

lemma getprop_Nil: "getprop [] k = None"
  by (simp add: getprop_def)

lemma getprop_Cons: "getprop (p # ob) k = (if fst p = k then Some (snd p) else getprop ob k)"
  by (cases p) (simp add: getprop_def)

lemma getprop_assign: "getprop (assign k v ob) k' = (if k' = k then Some v else getprop ob k')"
  by (induction ob) (auto simp: getprop_def)

lemma keys_assign: "fst ` set (assign k v ob) = insert k (fst ` set ob)"
  by (induction ob) auto

lemma object_assign: "object ob \<Longrightarrow> object (assign k v ob)"
proof (induction ob)
  case Nil
  then show ?case by (simp add: object_def)
next
  case (Cons p ob)
  have "fst p \<noteq> k \<Longrightarrow> fst p \<notin> fst ` set (assign k v ob)"
    using Cons.prems by (auto simp: keys_assign object_def)
  with Cons show ?case by (auto simp: object_def)
qed

lemma spread_Cons: "spread base (p # src) = spread (assign (fst p) (snd p) base) src"
  by (simp add: spread_def)

lemma object_spread: "object base \<Longrightarrow> object (spread base src)"
  by (induction src arbitrary: base) (simp_all add: spread_def object_assign)

lemma getprop_spread:
  "object src \<Longrightarrow>
     getprop (spread base src) k = (case getprop src k of Some v \<Rightarrow> Some v | None \<Rightarrow> getprop base k)"
proof (induction src arbitrary: base)
  case Nil
  then show ?case by (simp add: spread_def getprop_Nil)
next
  case (Cons p src)
  have osrc: "object src" and fresh: "fst p \<notin> fst ` set src"
    using Cons.prems by (auto simp: object_def)
  have none: "getprop src (fst p) = None"
    using fresh by (simp add: getprop_def map_of_eq_None_iff)
  show ?case
  proof (cases "k = fst p")
    case True
    then show ?thesis
      using Cons.IH [OF osrc] none
      by (simp add: spread_Cons getprop_assign getprop_Cons split: option.splits)
  next
    case False
    then show ?thesis
      using Cons.IH [OF osrc]
      by (simp add: spread_Cons getprop_assign getprop_Cons split: option.splits)
  qed
qed

lemma insertOne_insertable:
  assumes "insertable d doc"
  shows "\<exists>i doc' d'. insertOne doc d = Inr (i, doc', d')
          \<and> evidence d' = evidence d @ [doc']
          \<and> getprop doc' ''_id'' = Some i
          \<and> i = (case getprop doc ''_id'' of
                   None \<Rightarrow> JId (next_id d) | Some JNull \<Rightarrow> JId (next_id d) | Some j \<Rightarrow> j)
          \<and> (\<forall>k. k \<noteq> ''_id'' \<longrightarrow> getprop doc' k = getprop doc k)
          \<and> (object doc \<longrightarrow> object doc')"
proof (cases "getprop doc ''_id''")
  case None
  with assms show ?thesis
    by (auto simp: insertable_def insertOne_def generate_id_def store_def getprop_assign
        object_assign split: option.splits if_splits)
next
  case (Some j)
  with assms show ?thesis
    by (cases j)
       (auto simp: insertable_def insertOne_def generate_id_def store_def getprop_assign
          object_assign split: option.splits if_splits)
qed

lemma toString_inserted:
  assumes "printable_id b"
  shows "\<exists>s. toString (case getprop b ''_id'' of
                   None \<Rightarrow> JId n | Some JNull \<Rightarrow> JId n | Some j \<Rightarrow> j) = Some s"
proof (cases "getprop b ''_id''")
  case None
  then show ?thesis by simp
next
  case (Some j)
  with assms show ?thesis by (cases j) (auto simp: printable_id_def)
qed

lemma create_evidence_ok:
  assumes ob: "object b" and rq: "required b" and pr: "printable_id b"
    and ins: "insertable d (evidence_document b d)"
  shows "\<exists>t d'. create_evidence b d = (Respond 201 (created t), d')
           \<and> getprop t ''id'' \<noteq> None
           \<and> getprop t ''evidenceNumber'' = Some (JStr (evidence_number (countDocuments d)))
           \<and> countDocuments d' = Suc (countDocuments d)"
proof -
  define cb where "cb = (case getprop b ''collectedBy'' of
                 None \<Rightarrow> JStr ''Unknown Officer''
               | Some v \<Rightarrow> if truthy v then v else JStr ''Unknown Officer'')"
  define ed where "ed = assign ''collectedBy'' cb b"
  define num where "num = JStr (evidence_number (countDocuments d))"
  define data3 where
    "data3 = assign ''updatedAt'' (JStr (now d)) (assign ''createdAt'' (JStr (now d)) (assign ''evidenceNumber'' num ed))"
  have doc: "evidence_document b d = data3"
    by (simp add: evidence_document_def data3_def num_def ed_def cb_def)
  have fields: "truthy_prop (getprop ed ''type'')" "truthy_prop (getprop ed ''description'')"
    "truthy_prop (getprop ed ''location'')" "\<not> truthy_prop (getprop ed ''evidenceNumber'')"
    using rq by (simp_all add: ed_def required_def getprop_assign)
  have o3: "object data3" using ob by (simp add: data3_def ed_def object_assign)
  have id3: "getprop data3 ''_id'' = getprop b ''_id''"
    by (simp add: data3_def ed_def getprop_assign)
  have n3: "getprop data3 ''evidenceNumber'' = Some num"
    by (simp add: data3_def getprop_assign)
  have "insertable d data3" using ins doc by simp
  from insertOne_insertable [OF this] o3 n3 id3
  obtain i doc' d' where io: "insertOne data3 d = Inr (i, doc', d')"
    and d': "evidence d' = evidence d @ [doc']"
    and idoc: "getprop doc' ''_id'' = Some i"
    and i: "i = (case getprop b ''_id'' of
                   None \<Rightarrow> JId (next_id d) | Some JNull \<Rightarrow> JId (next_id d) | Some j \<Rightarrow> j)"
    and ndoc: "getprop doc' ''evidenceNumber'' = Some num" and odoc: "object doc'"
    by fastforce
  define ev where "ev = spread [(''_id'', i)] doc'"
  have cr: "create ed d = Inr (ev, d')"
    using fields(4) io
    by (simp add: create_def Let_def num_def data3_def ev_def)
  have "object [(''_id'', i)]" by (simp add: object_def)
  then have oev: "object ev" unfolding ev_def by (rule object_spread)
  have iev: "getprop ev ''_id'' = Some i" and nev: "getprop ev ''evidenceNumber'' = Some num"
    using idoc ndoc by (simp_all add: ev_def getprop_spread [OF odoc])
  obtain s where s: "toString i = Some s"
    using toString_inserted [OF pr, of "next_id d"] i by auto
  define t where "t = spread [(''id'', JStr s)] ev"
  have tr: "transform ev = Some t"
    by (simp add: transform_def toString_prop_def iev s t_def)
  have "create_evidence b d = (Respond 201 (created t), d')"
    using fields cr tr
    by (simp add: create_evidence_def Let_def cb_def [symmetric] ed_def [symmetric] created_def)
  moreover have "getprop t ''id'' \<noteq> None"
    by (simp add: t_def getprop_spread [OF oev] getprop_Cons split: option.splits)
  moreover have "getprop t ''evidenceNumber'' = Some num"
    using nev by (simp add: t_def getprop_spread [OF oev])
  moreover have "countDocuments d' = Suc (countDocuments d)"
    by (simp add: countDocuments_def d')
  ultimately show ?thesis by (auto simp: num_def)
qed

lemma digit_char: "n < 10 \<Longrightarrow> digit_value (''0123456789'' ! n) = Some n"
proof -
  assume "n < 10"
  then have "n \<in> set [0, 1, 2, 3, 4, 5, 6, 7, 8, 9]"
    by simp arith
  then show ?thesis
    by (auto simp: digit_value_def)
qed

lemma digits_value_snoc:
  "digits_value (ds @ [c]) = 10 * digits_value ds + (case digit_value c of Some v \<Rightarrow> v | None \<Rightarrow> 0)"
  by (simp add: digits_value_def)

lemma digits_value_String: "digits_value (String n) = n"
proof (induction n rule: String.induct)
  case (1 n)
  show ?case
  proof (cases "n < 10")
    case True
    then show ?thesis
      using digits_value_snoc [of "[]" "''0123456789'' ! n"]
      by (simp add: String.simps [of n] digit_char digits_value_def)
  next
    case False
    have "n mod 10 < 10" by simp
    then have "digit_value (''0123456789'' ! (n mod 10)) = Some (n mod 10)" by (rule digit_char)
    with False 1 show ?thesis
      by (simp add: String.simps [of n] digits_value_snoc)
  qed
qed

lemma digits_value_zeros: "digits_value (replicate k (CHR ''0'') @ s) = digits_value s"
proof -
  have "foldl (\<lambda>a c. 10 * a + (case digit_value c of Some v \<Rightarrow> v | None \<Rightarrow> 0)) 0 (replicate k (CHR ''0'')) = 0"
    by (induction k) (simp_all add: digit_value_def)
  then show ?thesis by (simp add: digits_value_def)
qed

lemma suffix_evidence_number: "suffix_value (evidence_number n) = n + 1"
  by (simp add: suffix_value_def evidence_number_def padStart_def digits_value_zeros digits_value_String)

lemma String_digits: "list_all (\<lambda>c. digit_value c \<noteq> None) (String n)"
proof (induction n rule: String.induct)
  case (1 n)
  have "n mod 10 < 10" by simp
  then have m: "digit_value (''0123456789'' ! (n mod 10)) = Some (n mod 10)" by (rule digit_char)
  show ?case
  proof (cases "n < 10")
    case True
    then show ?thesis by (simp add: String.simps [of n] digit_char)
  next
    case False
    with 1 m show ?thesis by (simp add: String.simps [of n])
  qed
qed

lemma length_String: "0 < k \<Longrightarrow> n < 10 ^ k \<Longrightarrow> length (String n) \<le> k"
proof (induction n arbitrary: k rule: String.induct)
  case (1 n)
  show ?case
  proof (cases "n < 10")
    case True
    with 1 show ?thesis by (simp add: String.simps [of n])
  next
    case False
    obtain j where k: "k = Suc j" using 1(2) by (cases k) simp_all
    have "0 < j" using False 1(3) k by (cases j) simp_all
    moreover have "n div 10 < 10 ^ j" using 1(3) k by (simp add: less_mult_imp_div_less mult.commute)
    ultimately have "length (String (n div 10)) \<le> j" using 1(1) [OF False] by simp
    with False k show ?thesis by (simp add: String.simps [of n])
  qed
qed

lemma evidence_number_pattern:
  assumes "n + 1 < 1000000"
  shows "matches_EV6 (evidence_number n)"
proof -
  have "length (String (n + 1)) \<le> 6"
    using assms length_String [of 6 "n + 1"] by simp
  moreover have "list_all (\<lambda>c. digit_value c \<noteq> None) (replicate k (CHR ''0''))" for k
    by (simp add: list_all_iff digit_value_def)
  ultimately show ?thesis
    using String_digits [of "n + 1"]
    by (simp add: matches_EV6_def evidence_number_def padStart_def)
qed

lemma route_evidence_create:
  assumes "req_method r = POST" and "req_path r = ''/api/evidence''"
  shows "dispatch x (evidence_routes @ post) r d = create_evidence (body r) d"
  using assms
  by (simp add: evidence_routes_def method_matches_def answered create_evidence_answers)

lemma route_evidence_create_only:
  assumes "req_method r = POST" and "req_path r = ''/api/evidence''"
  shows "dispatch x evidence_routes r d = create_evidence (body r) d"
  using route_evidence_create [OF assms, of x "[]" d] by simp

lemma route_evidence_item_only:
  assumes "segment s" and "decodeURIComponent s = Some i"
    and "req_path r = ''/api/evidence/'' @ s" and "req_method r = GET"
  shows "dispatch x evidence_routes r d = get_evidence_by_id i d"
  using route_evidence_item [OF assms(1,2,3), of x "[]" d] assms(4) by simp

lemma falls_through_pass_on:
  "falls_through pass_on initial_app r d = Some d"
  by (simp add: initial_app_def pass_on_def)

lemma find_None_ex: "find P xs = None \<longleftrightarrow> \<not> list_ex P xs"
  by (auto simp: find_None_iff list_ex_iff)

lemma ObjectId_valid_id: "ObjectId valid_id = Inr 352125166730063718056674663"
  by (simp add: valid_id_def ObjectId_def ObjectId_valid_def hex_value_def lower_def)

lemma create_first:
  "snd (dispatch pass_on (initial_app @ evidence_routes)
        \<lparr>req_method = POST, req_path = ''/api/evidence'', body = firearm\<rparr> empty_db) =
      \<lparr>evidence = [[(''type'', JStr ''firearm''), (''description'', JStr ''revolver''),
                     (''location'', JStr ''locker 4''), (''collectedBy'', JStr ''Unknown Officer''),
                     (''evidenceNumber'', JStr ''EV-000001''),
                     (''createdAt'', JStr ''2026-01-01T00:00:00.000Z''),
                     (''updatedAt'', JStr ''2026-01-01T00:00:00.000Z''),
                     (''_id'', JId 1)]],
       next_id = 2, now = ''2026-01-01T00:00:00.000Z'', refuses = (\<lambda>docs doc. None)\<rparr>"
proof -
  have n: "evidence_number 0 = ''EV-000001''"
    by (simp add: evidence_number_def padStart_def String.simps eval_nat_numeral)
  show ?thesis
    unfolding dispatch_append [OF falls_through_pass_on]
    by (simp add: route_evidence_create_only create_evidence_def create_def insertOne_def
      generate_id_def store_def firearm_def empty_db_def getprop_def truthy_prop_def Let_def
      countDocuments_def has_id_def transform_def toString_prop_def n split: option.splits)
qed


section \<open>The startup steps in closed form\<close>

lemma steps_ok: "f s = (s', None) \<Longrightarrow> steps (f # fs) s = steps fs s'"
  by simp

lemma load_eq: "load name imp s = (s\<lparr>trace := trace s @ load_trace name imp\<rparr>, None)"
  by (cases imp)
     (simp_all add: load_def try_catch_def emit_def import_module_def throw_def skip_def load_trace_def)

lemma load_modules_eq:
  "load_modules e s =
     (s\<lparr>trace := trace s @ Console Log ''Loading modules...'' #
         load_trace ''MongoDB connection'' (mongodb_connection e) @
         load_trace ''MongoDB routes'' (mongodb_routes e) @
         load_trace ''Evidence routes'' (evidence_routes_module e) @
         load_trace ''Custodial routes'' (custodial_routes e) @
         load_trace ''Vite'' (vite e) @
         load_trace ''Seed geofiles'' (seed_geofiles e)\<rparr>, None)"
  by (simp add: load_modules_def load_eq emit_def)

lemma connect_eq:
  "connect e s = (s\<lparr>trace := trace s @ connect_trace e, mongoConnected := connected e\<rparr>, None)"
  by (simp add: connect_def connect_trace_def connected_def try_catch_def emit_def call_attempt_def
      set_connected_def throw_def skip_def split: option.splits attempt.splits)

lemma call_registrar_eq:
  "call_registrar c m reg s =
     (s\<lparr>app := app s @ installed m reg, trace := trace s @ [Call c]\<rparr>,
      case reg of Registered ms \<Rightarrow> None | Failed ms msg \<Rightarrow> Some msg)"
  by (cases reg) (simp_all add: call_registrar_def installed_def emit_def use_def throw_def)

lemma register_mongodb_routes_eq:
  "register_mongodb_routes e s =
     (case loaded (mongodb_routes e) of
        None \<Rightarrow> (s, None)
      | Some reg \<Rightarrow>
          if mongoConnected s
          then (s\<lparr>app := app s @ installed ''mongodb-routes'' reg,
                  trace := trace s @ registrar_trace RegisterMongoDBRoutes
                     ''- Registering MongoDB routes...'' ''MongoDB Routes registered successfully''
                     ''Failed to register MongoDB routes: '' reg\<rparr>, None)
          else (s, None))"
  by (simp add: register_mongodb_routes_def if_connected_and_def try_catch_def call_registrar_eq
      emit_def skip_def registrar_trace_def split: option.splits registration.splits)

lemma register_custodial_routes_eq:
  "register_custodial_routes e s =
     (case loaded (custodial_routes e) of
        None \<Rightarrow> (s, None)
      | Some reg \<Rightarrow>
          if mongoConnected s
          then (s\<lparr>app := app s @ installed ''custodial-routes'' reg,
                  trace := trace s @ registrar_trace RegisterCustodialRoutes
                     ''- Registering Custodial Routes...'' ''Custodial Routes registered successfully''
                     ''Failed to register custodial routes: '' reg\<rparr>, None)
          else (s, None))"
  by (simp add: register_custodial_routes_def if_connected_and_def try_catch_def call_registrar_eq
      emit_def skip_def registrar_trace_def split: option.splits registration.splits)

lemma register_evidence_routes_eq:
  "register_evidence_routes e s =
     (case loaded (evidence_routes_module e) of
        None \<Rightarrow> (s, None)
      | Some u \<Rightarrow>
          if mongoConnected s
          then (s\<lparr>app := app s @ evidence_routes,
                  trace := trace s @
                    [Console Log ''- Registering Evidence Routes...'', Call RegisterEvidenceRoutes,
                     Console Log ''Registering Evidence Routes...'',
                     Console Log ''Evidence Routes registered successfully'',
                     Console Log ''Evidence Routes registered successfully'']\<rparr>, None)
          else (s, None))"
  by (simp add: register_evidence_routes_def if_connected_and_def try_catch_def
      registerEvidenceRoutes_def emit_def use_def skip_def split: option.splits)

lemma register_additional_routes_eq:
  "register_additional_routes e s =
     (case api_routes e of
        ImportFailed msg \<Rightarrow>
          (s\<lparr>trace := trace s @ [Console Log ''Additional routes file not found - continuing without it'']\<rparr>, None)
      | Imported None \<Rightarrow> (s, None)
      | Imported (Some reg) \<Rightarrow>
          (s\<lparr>app := app s @ installed ''api-routes'' reg,
             trace := trace s @
               [Call RegisterAdditionalRoutes,
                case reg of
                  Registered ms \<Rightarrow> Console Log ''Additional routes loaded successfully''
                | Failed ms msg \<Rightarrow> Console Log ''Additional routes file not found - continuing without it'']\<rparr>,
           None))"
  by (simp add: register_additional_routes_def try_catch_def call_registrar_eq import_module_def
      emit_def skip_def throw_def split: import.splits option.splits registration.splits)

lemma frontend_cases:
  "frontend e s =
     (if NODE_ENV e = Some ''production''
      then (s\<lparr>app := app s @ [Layer (Mount ''/'') (Library ''express.static(buildPath)''),
                               Layer (Route GET [Wild]) ProdIndex]\<rparr>, None)
      else
        (case loaded (vite e) of
           None \<Rightarrow> (s\<lparr>app := app s @ [Layer (Route GET [Wild]) (InlineHtml (mongoConnected s))]\<rparr>, None)
         | Some (Registered ms) \<Rightarrow>
             (s\<lparr>app := app s @ foreign_layers ''vite'' ms,
                trace := trace s @
                  [Console Log ''- Setting up Vite development server...'', Call SetupVite,
                   Console Log ''Vite development server setup complete'']\<rparr>, None)
         | Some (Failed ms msg) \<Rightarrow>
             (s\<lparr>app := app s @ foreign_layers ''vite'' ms
                          @ [Layer (Route GET [Wild]) (InlineHtml (mongoConnected s))],
                trace := trace s @
                  [Console Log ''- Setting up Vite development server...'', Call SetupVite,
                   Console Warn (''Failed to setup Vite: '' @ msg)]\<rparr>, None)))"
  by (simp add: frontend_def try_catch_def call_registrar_eq installed_def inline_fallback_def
      emit_def use_def skip_def split: option.splits registration.splits)

lemma listen_eq:
  "listen e s =
     (s\<lparr>trace := trace s @
         [Console Log ''Starting HTTP server...'',
          Console Log (''Attempting to bind server to port '' @ port_text (port e) @ ''...''),
          Call Listen]\<rparr>,
      if valid_port (port e) then None else Some (bad_port (port e)))"
  by (simp add: listen_def emit_def skip_def throw_def)

lemma features_eq:
  "steps [register_mongodb_routes e, register_evidence_routes e, register_custodial_routes e] s =
     (s\<lparr>app := app s @ feature_layers e (mongoConnected s),
        trace := trace s @ feature_trace e (mongoConnected s)\<rparr>, None)"
  by (simp add: register_mongodb_routes_eq register_evidence_routes_eq register_custodial_routes_eq
      feature_layers_def feature_trace_def split: option.splits)

lemma additional_eq:
  "register_additional_routes e s =
     (s\<lparr>app := app s @ additional_layers e, trace := trace s @ additional_trace e\<rparr>, None)"
  by (simp add: register_additional_routes_eq additional_layers_def additional_trace_def
      split: import.splits option.splits)

lemma fixed_eq:
  "steps [use [Layer (Mount ''/uploads'') (Library ''express.static(uploads)'')],
          health_route, fallback_route] s =
     (s\<lparr>app := app s @ fixed_layers (mongoConnected s)\<rparr>, None)"
  by (simp add: use_def health_route_def fallback_route_def skip_def fixed_layers_def)

lemma steps_append:
  "steps (fs @ gs) s = (case steps fs s of (s', None) \<Rightarrow> steps gs s' | (s', Some msg) \<Rightarrow> (s', Some msg))"
  by (induction fs arbitrary: s) (auto split: prod.splits option.splits)

lemma register_routes_eq:
  "register_routes e s =
     (s\<lparr>app := app s @ feature_layers e (mongoConnected s) @ additional_layers e
                   @ fixed_layers (mongoConnected s),
        trace := trace s @ Console Log ''Setting up Express routes...''
                   # feature_trace e (mongoConnected s) @ additional_trace e\<rparr>, None)"
proof -
  have "register_routes e =
     steps ([emit [Console Log ''Setting up Express routes...'']]
       @ [register_mongodb_routes e, register_evidence_routes e, register_custodial_routes e]
       @ [register_additional_routes e]
       @ [use [Layer (Mount ''/uploads'') (Library ''express.static(uploads)'')],
          health_route, fallback_route])"
    by (simp add: register_routes_def)
  then show ?thesis
    by (simp only: steps_append features_eq fixed_eq)
       (simp add: emit_def additional_eq)
qed

lemma frontend_eq:
  "frontend e s =
     (s\<lparr>app := app s @ frontend_layers e (mongoConnected s),
        trace := trace s @ frontend_trace e\<rparr>, None)"
  by (simp add: frontend_cases frontend_layers_def frontend_trace_def
      split: option.splits registration.splits)

lemma startServer_eq:
  "startServer e initial =
     (\<lparr>app = startup_app e, trace = startup_trace e, mongoConnected = connected e,
       seeding_scheduled = connected e, listening = False, exit_code = None\<rparr>,
      if valid_port (port e) then None else Some (bad_port (port e)))"
  by (simp add: startServer_def load_modules_eq connect_eq register_routes_eq frontend_eq listen_eq
      emit_def schedule_seeding_def skip_def initial_def startup_app_def startup_trace_def
      loading_trace_def listen_trace_def)

lemma main_eq:
  "main e =
     \<lparr>app = startup_app e, trace = startup_trace e @ final_trace e, mongoConnected = connected e,
      seeding_scheduled = connected e,
      listening = (valid_port (port e) \<and> bind e = None),
      exit_code = (if valid_port (port e) \<and> bind e = None then None else Some 1)\<rparr>"
  by (simp add: main_def startServer_eq on_listening_def on_error_def on_fatal_def final_trace_def
      split: option.splits prod.splits)

lemma calls_loading: "Call c \<notin> set (loading_trace e)"
  by (simp add: loading_trace_def load_trace_def split: import.splits)

lemma calls_connect:
  "Call c \<in> set (connect_trace e) \<longleftrightarrow> c = ConnectToMongoDB \<and> loaded (mongodb_connection e) \<noteq> None"
  by (auto simp: connect_trace_def fallback_mode_def split: option.splits attempt.splits)

lemma calls_registrar:
  "Call c \<in> set (registrar_trace c' before done failed reg) \<longleftrightarrow> c = c'"
  by (auto simp: registrar_trace_def split: registration.splits)

lemma calls_feature:
  "Call c \<in> set (feature_trace e b) \<longleftrightarrow>
     b \<and> (c = RegisterMongoDBRoutes \<and> loaded (mongodb_routes e) \<noteq> None
          \<or> c = RegisterEvidenceRoutes \<and> loaded (evidence_routes_module e) \<noteq> None
          \<or> c = RegisterCustodialRoutes \<and> loaded (custodial_routes e) \<noteq> None)"
  by (auto simp: feature_trace_def calls_registrar split: option.splits)

lemma calls_additional:
  "Call c \<in> set (additional_trace e) \<longleftrightarrow>
     c = RegisterAdditionalRoutes \<and> loaded (api_routes e) \<noteq> None"
proof (cases "api_routes e")
  case (ImportFailed m)
  then show ?thesis by (simp add: additional_trace_def)
next
  case (Imported x)
  show ?thesis
  proof (cases x)
    case None
    with Imported show ?thesis by (simp add: additional_trace_def)
  next
    case (Some reg)
    with Imported show ?thesis by (cases reg) (auto simp: additional_trace_def)
  qed
qed

lemma calls_frontend:
  "Call c \<in> set (frontend_trace e) \<longleftrightarrow>
     c = SetupVite \<and> NODE_ENV e \<noteq> Some ''production'' \<and> loaded (vite e) \<noteq> None"
proof (cases "loaded (vite e)")
  case None
  then show ?thesis by (simp add: frontend_trace_def)
next
  case (Some reg)
  then show ?thesis by (cases reg) (auto simp: frontend_trace_def)
qed

lemma calls_listen: "Call c \<in> set (listen_trace e) \<longleftrightarrow> c = Listen"
  by (auto simp: listen_trace_def)

lemma calls_final: "Call c \<notin> set (final_trace e)"
  by (simp add: final_trace_def split: option.splits prod.splits)

lemmas calls_simps =
  calls_loading calls_connect calls_feature calls_additional calls_frontend calls_listen calls_final

lemma calls_main:
  "Call c \<in> set (trace (main e)) \<longleftrightarrow>
     c = ConnectToMongoDB \<and> loaded (mongodb_connection e) \<noteq> None
   \<or> connected e \<and> (c = RegisterMongoDBRoutes \<and> loaded (mongodb_routes e) \<noteq> None
          \<or> c = RegisterEvidenceRoutes \<and> loaded (evidence_routes_module e) \<noteq> None
          \<or> c = RegisterCustodialRoutes \<and> loaded (custodial_routes e) \<noteq> None)
   \<or> c = RegisterAdditionalRoutes \<and> loaded (api_routes e) \<noteq> None
   \<or> c = SetupVite \<and> NODE_ENV e \<noteq> Some ''production'' \<and> loaded (vite e) \<noteq> None
   \<or> c = Listen"
  by (simp add: main_eq startup_trace_def calls_simps)


section \<open>The layers of the application after startup\<close>

lemma foreign_layers_handlers:
  "l \<in> set (foreign_layers m ms) \<Longrightarrow> \<exists>n. handler_of l = Foreign m n"
  by (auto simp: foreign_layers_def)

lemma installed_handlers:
  "l \<in> set (installed m reg) \<Longrightarrow> \<exists>n. handler_of l = Foreign m n"
  by (cases reg) (auto simp: installed_def dest: foreign_layers_handlers)

lemma evidence_routes_handlers:
  "l \<in> set evidence_routes \<Longrightarrow>
     handler_of l \<in> {GetAllEvidence, GetEvidenceById, CreateEvidence, UpdateEvidence, DeleteEvidence}"
  by (auto simp: evidence_routes_def)

lemma initial_app_handlers: "l \<in> set initial_app \<Longrightarrow> \<exists>n. handler_of l = Library n"
  by (auto simp: initial_app_def)

lemma feature_layers_handlers:
  "l \<in> set (feature_layers e b) \<Longrightarrow>
     (\<exists>m n. handler_of l = Foreign m n) \<or>
     handler_of l \<in> {GetAllEvidence, GetEvidenceById, CreateEvidence, UpdateEvidence, DeleteEvidence}"
  by (auto simp: feature_layers_def split: if_splits option.splits
      dest!: installed_handlers evidence_routes_handlers)

lemma additional_layers_handlers:
  "l \<in> set (additional_layers e) \<Longrightarrow> \<exists>m n. handler_of l = Foreign m n"
  by (auto simp: additional_layers_def split: option.splits dest!: installed_handlers)

lemma early_layers_handlers:
  assumes "l \<in> set (initial_app @ feature_layers e b @ additional_layers e)"
  shows "handler_of l \<noteq> ServiceUnavailable \<and> handler_of l \<noteq> ProdIndex
         \<and> (\<forall>c. handler_of l \<noteq> InlineHtml c)"
  using assms
  by (auto dest!: initial_app_handlers feature_layers_handlers additional_layers_handlers)

lemma frontend_layers_handlers:
  "l \<in> set (frontend_layers e b) \<Longrightarrow> handler_of l \<noteq> ServiceUnavailable"
proof (cases "loaded (vite e)")
  case None
  assume "l \<in> set (frontend_layers e b)"
  with None show ?thesis by (auto simp: frontend_layers_def split: if_splits)
next
  case (Some reg)
  assume "l \<in> set (frontend_layers e b)"
  with Some show ?thesis
    by (cases reg) (auto simp: frontend_layers_def split: if_splits dest!: foreign_layers_handlers)
qed

lemma app_main: "app (main e) = startup_app e"
  by (simp add: main_eq)

lemma connected_main: "mongoConnected (main e) = connected e"
  by (simp add: main_eq)

lemma service_unavailable_layers:
  "l \<in> set (startup_app e) \<Longrightarrow> handler_of l = ServiceUnavailable \<Longrightarrow> l = catch_all \<and> \<not> connected e"
proof -
  assume l: "l \<in> set (startup_app e)" and h: "handler_of l = ServiceUnavailable"
  from l consider
      "l \<in> set (initial_app @ feature_layers e (connected e) @ additional_layers e)"
    | "l \<in> set (fixed_layers (connected e))"
    | "l \<in> set (frontend_layers e (connected e))"
    by (auto simp: startup_app_def)
  then show ?thesis
  proof cases
    case 1
    with early_layers_handlers h show ?thesis by blast
  next
    case 2
    with h show ?thesis by (auto simp: fixed_layers_def catch_all_def split: if_splits)
  next
    case 3
    with frontend_layers_handlers h show ?thesis by blast
  qed
qed

lemma catch_all_registered: "catch_all \<in> set (startup_app e) \<longleftrightarrow> \<not> connected e"
proof
  assume "catch_all \<in> set (startup_app e)"
  then show "\<not> connected e"
    using service_unavailable_layers [of catch_all e] by (simp add: catch_all_def)
next
  assume "\<not> connected e"
  then show "catch_all \<in> set (startup_app e)"
    by (simp add: startup_app_def fixed_layers_def catch_all_def)
qed

lemma takeWhile_until:
  "\<forall>x \<in> set xs. P x \<Longrightarrow> \<not> P y \<Longrightarrow> takeWhile P (xs @ y # ys) = xs"
  by (induction xs) auto

lemma before_catch_all:
  assumes "\<not> connected e"
  shows "startup_app e =
           (initial_app @ feature_layers e False @ additional_layers e
             @ [Layer (Mount ''/uploads'') (Library ''express.static(uploads)''),
                Layer (Route GET [Lit ''/api/health'']) (Health False)])
           @ catch_all # frontend_layers e False"
    and "takeWhile (\<lambda>l. handler_of l \<noteq> ServiceUnavailable) (startup_app e) =
           initial_app @ feature_layers e False @ additional_layers e
             @ [Layer (Mount ''/uploads'') (Library ''express.static(uploads)''),
                Layer (Route GET [Lit ''/api/health'']) (Health False)]"
proof -
  let ?pre = "initial_app @ feature_layers e False @ additional_layers e
             @ [Layer (Mount ''/uploads'') (Library ''express.static(uploads)''),
                Layer (Route GET [Lit ''/api/health'']) (Health False)]"
  show eq: "startup_app e = ?pre @ catch_all # frontend_layers e False"
    using assms by (simp add: startup_app_def fixed_layers_def catch_all_def)
  have "\<forall>l \<in> set ?pre. handler_of l \<noteq> ServiceUnavailable"
    using early_layers_handlers [of _ e False] by auto
  moreover have "\<not> handler_of catch_all \<noteq> ServiceUnavailable" by (simp add: catch_all_def)
  ultimately have "takeWhile (\<lambda>l. handler_of l \<noteq> ServiceUnavailable) (?pre @ catch_all # frontend_layers e False) = ?pre"
    by (rule takeWhile_until)
  with eq show "takeWhile (\<lambda>l. handler_of l \<noteq> ServiceUnavailable) (startup_app e) = ?pre"
    by simp
qed

lemma pmatch_Wild: "pmatch [Wild] s = Some [(''0'', s)]"
proof -
  have "rev [0 ..< Suc (length s)] = length s # rev [0 ..< length s]" by simp
  then show ?thesis by (simp add: boundary_Nil)
qed

lemma api_capture:
  "pmatch [Lit ''/api/'', Wild] p =
     (if map lower (take 5 p) = ''/api/'' then Some [(''0'', drop 5 p)] else None)"
proof -
  have len: "length ''/api/'' = 5" by simp
  have low: "map lower ''/api/'' = ''/api/''" by (simp add: lower_def)
  show ?thesis
    by (simp only: pmatch.simps(2) len low pmatch_Wild)
qed

lemma api_prefix: "startsWith p ''/api/'' \<Longrightarrow> map lower (take 5 p) = ''/api/''"
proof -
  have len: "length ''/api/'' = 5" by simp
  assume "startsWith p ''/api/''"
  then have "take 5 p = ''/api/''" unfolding startsWith_def len .
  then show ?thesis by (simp add: lower_def)
qed

lemma decode_param_one:
  "decode_params [(n, v)] = (case decodeURIComponent v of None \<Rightarrow> None | Some t \<Rightarrow> Some [(n, t)])"
  by (simp split: option.splits)

lemma catch_all_matches:
  "matches (Route GET [Lit ''/api/'', Wild]) r =
     (if map lower (take 5 (req_path r)) \<noteq> ''/api/'' then Unmatched
      else if decodeURIComponent (drop 5 (req_path r)) = None then Undecodable
      else if req_method r = GET \<or> req_method r = HEAD
           then Matched [(''0'', the (decodeURIComponent (drop 5 (req_path r))))]
      else Unmatched)"
  by (auto simp: api_capture decode_param_one method_matches_def simp del: pmatch.simps decode_params.simps
      split: option.splits)

lemma star_matches:
  "matches (Route GET [Wild]) r =
     (if decodeURIComponent (req_path r) = None then Undecodable
      else if req_method r = GET \<or> req_method r = HEAD
           then Matched [(''0'', the (decodeURIComponent (req_path r)))]
      else Unmatched)"
  by (auto simp: pmatch_Wild decode_param_one method_matches_def simp del: pmatch.simps decode_params.simps
      split: option.splits)

lemma dispatch_without:
  assumes "\<forall>m. Layer m h \<in> set ls \<longrightarrow> matches m r = Unmatched"
  shows "dispatch x ls r d = dispatch x (filter (\<lambda>l. handler_of l \<noteq> h) ls) r d"
  using assms
proof (induction ls arbitrary: d)
  case Nil
  then show ?case by simp
next
  case (Cons l ls)
  obtain m h' where l: "l = Layer m h'" by (cases l)
  have ih: "\<And>d. dispatch x ls r d = dispatch x (filter (\<lambda>l. handler_of l \<noteq> h) ls) r d"
    using Cons by simp
  show ?case
  proof (cases "h' = h")
    case True
    with Cons.prems l have "matches m r = Unmatched" by simp
    with True l ih show ?thesis by simp
  next
    case False
    with l ih show ?thesis by (simp split: matching.splits prod.splits outcome.splits)
  qed
qed

lemma dispatch_unanswered:
  "falls_through x ls r d = Some d' \<Longrightarrow> dispatch x ls r d = (Respond 404 DefaultNotFound, d')"
  using dispatch_append [of x ls r d d' "[]"] by simp

lemma is_inline_handler: "is_inline l \<Longrightarrow> \<exists>c. handler_of l = InlineHtml c"
  by (cases l) (auto split: handler.splits)

lemma early_not_inline:
  "\<not> list_ex is_inline (initial_app @ feature_layers e b @ additional_layers e)"
  using early_layers_handlers [of _ e b] is_inline_handler
  unfolding list_ex_iff by blast

lemma fixed_not_inline: "\<not> list_ex is_inline (fixed_layers b)"
  by (simp add: fixed_layers_def)

lemma foreign_not_inline: "\<not> list_ex is_inline (foreign_layers m ms)"
  using foreign_layers_handlers [of _ m ms] is_inline_handler
  unfolding list_ex_iff by fastforce

lemma frontend_inline:
  "list_ex is_inline (frontend_layers e b) \<longleftrightarrow>
     NODE_ENV e \<noteq> Some ''production'' \<and> (\<forall>ms. loaded (vite e) \<noteq> Some (Registered ms))"
proof (cases "loaded (vite e)")
  case None
  then show ?thesis by (simp add: frontend_layers_def)
next
  case (Some reg)
  then show ?thesis
    by (cases reg) (simp_all add: frontend_layers_def foreign_not_inline)
qed

lemma inline_registered:
  "list_ex is_inline (startup_app e) \<longleftrightarrow>
     NODE_ENV e \<noteq> Some ''production'' \<and> (\<forall>ms. loaded (vite e) \<noteq> Some (Registered ms))"
  using early_not_inline [of e "connected e"]
  by (simp add: startup_app_def fixed_not_inline frontend_inline)

lemma foreign_not_prod: "Layer m ProdIndex \<notin> set (foreign_layers n ms)"
  using foreign_layers_handlers [of "Layer m ProdIndex" n ms] by auto

lemma frontend_prod:
  "Layer (Route GET [Wild]) ProdIndex \<in> set (frontend_layers e b) \<longleftrightarrow> NODE_ENV e = Some ''production''"
proof (cases "loaded (vite e)")
  case None
  then show ?thesis by (simp add: frontend_layers_def)
next
  case (Some reg)
  then show ?thesis
    by (cases reg) (simp_all add: frontend_layers_def foreign_not_prod)
qed

lemma prod_registered:
  "Layer (Route GET [Wild]) ProdIndex \<in> set (startup_app e) \<longleftrightarrow> NODE_ENV e = Some ''production''"
proof -
  have "Layer (Route GET [Wild]) ProdIndex \<notin> set (initial_app @ feature_layers e (connected e) @ additional_layers e)"
    using early_layers_handlers [of "Layer (Route GET [Wild]) ProdIndex" e "connected e"] by auto
  moreover have "Layer (Route GET [Wild]) ProdIndex \<notin> set (fixed_layers (connected e))"
    by (simp add: fixed_layers_def)
  ultimately show ?thesis
    using frontend_prod [of e "connected e"] by (auto simp: startup_app_def)
qed

lemma foreign_layers_Nil: "foreign_layers m ms = [] \<longleftrightarrow> ms = []"
  by (cases ms) (simp_all add: foreign_layers_def)

lemma foreign_bundler:
  "list_ex is_bundler (foreign_layers m ms) \<longleftrightarrow> m = ''vite'' \<and> ms \<noteq> []"
proof -
  have "is_bundler l \<longleftrightarrow> m = ''vite''" if "l \<in> set (foreign_layers m ms)" for l
    using that by (auto simp: foreign_layers_def)
  then show ?thesis
    using foreign_layers_Nil [of m ms]
    unfolding list_ex_iff by (cases "foreign_layers m ms") (auto simp del: is_bundler.simps)
qed

lemma installed_bundler:
  "list_ex is_bundler (installed m reg) \<longleftrightarrow> m = ''vite'' \<and> installed m reg \<noteq> []"
  by (cases reg) (simp_all add: installed_def foreign_bundler foreign_layers_Nil)

lemma early_not_bundler:
  "\<not> list_ex is_bundler (initial_app @ feature_layers e b @ additional_layers e)"
  by (simp add: initial_app_def feature_layers_def additional_layers_def evidence_routes_def
      installed_bundler split: option.splits)

lemma fixed_not_bundler: "\<not> list_ex is_bundler (fixed_layers b)"
  by (simp add: fixed_layers_def)

lemma frontend_bundler:
  "list_ex is_bundler (frontend_layers e b) \<longleftrightarrow>
     NODE_ENV e \<noteq> Some ''production''
     \<and> (\<exists>reg. loaded (vite e) = Some reg \<and> installed ''vite'' reg \<noteq> [])"
proof (cases "loaded (vite e)")
  case None
  then show ?thesis by (simp add: frontend_layers_def)
next
  case (Some reg)
  then show ?thesis
    by (cases reg) (simp_all add: frontend_layers_def foreign_bundler installed_def foreign_layers_Nil)
qed

lemma bundler_registered:
  "list_ex is_bundler (startup_app e) \<longleftrightarrow>
     NODE_ENV e \<noteq> Some ''production''
     \<and> (\<exists>reg. loaded (vite e) = Some reg \<and> installed ''vite'' reg \<noteq> [])"
  using early_not_bundler [of e "connected e"]
  by (simp add: startup_app_def fixed_not_bundler frontend_bundler)

lemma last_frontend_failed:
  assumes "NODE_ENV e \<noteq> Some ''production''" and "loaded (vite e) = Some (Failed ms msg)"
  shows "last (startup_app e) = Layer (Route GET [Wild]) (InlineHtml (connected e))"
  using assms by (simp add: startup_app_def frontend_layers_def)


section \<open>Two applications in full\<close>

lemma app_bare_env:
  "app (main bare_env) =
     initial_app @
     [Layer (Mount ''/uploads'') (Library ''express.static(uploads)''),
      Layer (Route GET [Lit ''/api/health'']) (Health False),
      catch_all,
      Layer (Route GET [Wild]) (InlineHtml False)]"
  by (simp add: app_main startup_app_def feature_layers_def additional_layers_def fixed_layers_def
      frontend_layers_def connected_def bare_env_def catch_all_def)

lemma app_production_env:
  "app (main production_env) =
     initial_app @
     [Layer (Mount ''/uploads'') (Library ''express.static(uploads)''),
      Layer (Route GET [Lit ''/api/health'']) (Health True),
      Layer (Mount ''/'') (Library ''express.static(buildPath)''),
      Layer (Route GET [Wild]) ProdIndex]"
  by (simp add: app_main startup_app_def feature_layers_def additional_layers_def fixed_layers_def
      frontend_layers_def connected_def production_env_def bare_env_def)

lemma health_path_evidence: "pmatch [Lit ''/api/health''] ''/api/evidence'' = None"
  by (simp add: lower_def)

lemma health_path_unknown: "pmatch [Lit ''/api/health''] ''/api/unknown'' = None"
  by (simp add: lower_def)

lemma uploads_mount_evidence: "\<not> mount_matches ''/uploads'' ''/api/evidence''"
  by (simp add: mount_matches_def lower_def)

lemma uploads_mount_unknown: "\<not> mount_matches ''/uploads'' ''/api/unknown''"
  by (simp add: mount_matches_def lower_def)

section \<open>Properties of the evidence routes\<close>

text \<open>
  C9. For every id string that is not a valid ObjectId, GET (and HEAD, which Express serves
  with the GET handler), PUT and DELETE on \<open>/api/evidence/<id>\<close> are answered with status
  500 and the error body of the handler, not with 404: the construction of the ObjectId
  throws inside the handler and its \<open>catch\<close> answers. The id \<open>i\<close> is what the handler reads
  as \<open>req.params.id\<close>, the text that the last segment \<open>s\<close> of the path decodes to; every id
  that is not empty has such a segment (\<open>segment_escape\<close>, \<open>decode_escape\<close>). The layers
  installed before the evidence routes pass the request on, and the database is left as
  those layers left it.
\<close>

theorem invalid_id_answers_500:
  assumes "\<not> ObjectId_valid i" and "segment s" and "decodeURIComponent s = Some i"
    and "req_path r = ''/api/evidence/'' @ s"
    and "falls_through x pre r d = Some d'"
  shows "dispatch x (pre @ evidence_routes @ post) r d =
     (case req_method r of
        GET \<Rightarrow> (Respond 500 (error_body ''Failed to fetch evidence''), d')
      | HEAD \<Rightarrow> (Respond 500 (error_body ''Failed to fetch evidence''), d')
      | PUT \<Rightarrow> (Respond 500 (error_body ''Failed to update evidence''), d')
      | DELETE \<Rightarrow> (Respond 500 (error_body ''Failed to delete evidence''), d')
      | POST \<Rightarrow> dispatch x post r d'
      | PATCH \<Rightarrow> dispatch x post r d')"
proof -
  obtain e where e: "ObjectId i = Inl e" using invalid_ObjectId [OF assms(1)] by blast
  have g: "get_evidence_by_id i d' = (Respond 500 (error_body ''Failed to fetch evidence''), d')"
    by (simp add: get_evidence_by_id_def findById_def e)
  have u: "update_evidence i (body r) d' = (Respond 500 (error_body ''Failed to update evidence''), d')"
    by (simp add: update_evidence_def update_def e)
  have dl: "delete_evidence i d' = (Respond 500 (error_body ''Failed to delete evidence''), d')"
    by (simp add: delete_evidence_def delete_def e)
  show ?thesis
    unfolding dispatch_append [OF assms(5)] route_evidence_item [OF assms(2,3,4)]
    by (simp add: g u dl split: verb.splits)
qed

theorem invalid_id_answers_500_witness:
  "dispatch pass_on (initial_app @ evidence_routes @ [])
      \<lparr>req_method = DELETE, req_path = ''/api/evidence/'' @ ''42'', body = []\<rparr> empty_db =
     (Respond 500 (error_body ''Failed to delete evidence''), empty_db)
   \<and> decodeURIComponent ''case%2F7'' = Some ''case/7''
   \<and> dispatch pass_on (initial_app @ evidence_routes @ [])
      \<lparr>req_method = GET, req_path = ''/api/evidence/'' @ ''case%2F7'', body = []\<rparr> empty_db =
     (Respond 500 (error_body ''Failed to fetch evidence''), empty_db)"
proof -
  have a: "\<not> ObjectId_valid ''42''" "\<not> ObjectId_valid ''case/7''"
    by (simp_all add: ObjectId_valid_def)
  have b: "segment ''42''" "segment ''case%2F7''" by (simp_all add: segment_def)
  have c: "decodeURIComponent ''42'' = Some ''42''"
    by (simp add: decodeURIComponent_def)
  have c': "decodeURIComponent ''case%2F7'' = Some ''case/7''"
    by (simp add: decodeURIComponent_def hex_value_def lower_def char_of_def bit_iff_odd)
  have f: "falls_through pass_on initial_app r empty_db = Some empty_db" for r
    by (simp add: initial_app_def pass_on_def)
  show ?thesis
    using invalid_id_answers_500 [OF a(1) b(1) c _ f, of _ "[]"]
      invalid_id_answers_500 [OF a(2) b(2) c' _ f, of _ "[]"] c'
    by simp
qed

text \<open>
  C7, as amended. For every id that is a valid ObjectId string and identifies no stored
  evidence document, \<open>GET /api/evidence/<id>\<close> is answered with status 404 and the body
  \<open>{error: "Evidence not found"}\<close>, when the layers installed before the evidence routes
  pass the request on.
\<close>

theorem unknown_id_answers_404:
  assumes "ObjectId i = Inr oid" and "\<not> list_ex (has_id (JId oid)) (evidence d')"
    and "req_method r = GET" and "req_path r = ''/api/evidence/'' @ i"
    and "falls_through x pre r d = Some d'"
  shows "dispatch x (pre @ evidence_routes @ post) r d =
           (Respond 404 (error_body ''Evidence not found''), d')"
proof -
  have v: "ObjectId_valid i" using assms(1) by (simp add: ObjectId_def split: if_splits)
  then have seg: "segment i" by (rule valid_segment)
  have dec: "decodeURIComponent i = Some i" using v by (rule decode_valid)
  have "findOne oid d' = None" using assms(2) by (simp add: findOne_def find_None_ex)
  then have "get_evidence_by_id i d' = (Respond 404 (error_body ''Evidence not found''), d')"
    using assms(1) by (simp add: get_evidence_by_id_def findById_def)
  then show ?thesis
    unfolding dispatch_append [OF assms(5)] route_evidence_item [OF seg dec assms(4)]
    by (simp add: assms(3))
qed

theorem unknown_id_answers_404_witness:
  "dispatch pass_on (initial_app @ evidence_routes @ [])
      \<lparr>req_method = GET, req_path = ''/api/evidence/'' @ valid_id, body = []\<rparr> empty_db =
     (Respond 404 (error_body ''Evidence not found''), empty_db)"
proof -
  have none: "\<not> list_ex (has_id (JId 352125166730063718056674663)) (evidence empty_db)"
    by (simp add: empty_db_def)
  show ?thesis
    using unknown_id_answers_404 [OF ObjectId_valid_id none _ _ falls_through_pass_on, of _ "[]"]
    by simp
qed

text \<open>
  C7 as stated fails: \<open>nonexistent-id\<close> identifies no document (the collection is empty),
  and the request is answered with status 500.
\<close>

theorem nonexistent_id_answers_500:
  "evidence empty_db = []
   \<and> dispatch pass_on (initial_app @ evidence_routes)
        \<lparr>req_method = GET, req_path = ''/api/evidence/'' @ ''nonexistent-id'', body = []\<rparr> empty_db
      = (Respond 500 (error_body ''Failed to fetch evidence''), empty_db)"
proof -
  have seg: "segment ''nonexistent-id''" by (simp add: segment_def)
  have dec: "decodeURIComponent ''nonexistent-id'' = Some ''nonexistent-id''"
    by (rule decode_plain) simp
  have bad: "ObjectId ''nonexistent-id'' = Inl (Error None ''input must be a 24 character hex string, 12 byte Uint8Array, or an integer'')"
    by (simp add: ObjectId_def ObjectId_valid_def)
  have "dispatch pass_on (initial_app @ evidence_routes)
        \<lparr>req_method = GET, req_path = ''/api/evidence/'' @ ''nonexistent-id'', body = []\<rparr> empty_db
      = (Respond 500 (error_body ''Failed to fetch evidence''), empty_db)"
    unfolding dispatch_append [OF falls_through_pass_on]
    by (simp add: route_evidence_item_only [OF seg dec] get_evidence_by_id_def findById_def bad
        del: append.simps)
  then show ?thesis by (simp add: empty_db_def del: append.simps)
qed

text \<open>
  C3, as amended. A \<open>POST /api/evidence\<close> whose body is an object with truthy \<open>type\<close>,
  \<open>description\<close> and \<open>location\<close>, without a truthy \<open>evidenceNumber\<close>, whose \<open>_id\<close> (if it
  brings one) has a string form, and whose insert the database accepts, is answered with
  status 201; the evidence in the answer has an \<open>id\<close> and the \<open>evidenceNumber\<close> "EV-"
  followed by the document count plus one, padded with zeros to six digits (exactly six
  digits below one million). A second such request right after it (the layers before the
  route leave the size of the collection as it is), accepted as well, gets the number whose
  numeric suffix is one greater.
\<close>

theorem create_evidence_numbers:
  assumes "req_method r1 = POST" and "req_path r1 = ''/api/evidence''"
    and "falls_through x pre r1 d = Some d0"
    and "object (body r1)" and "required (body r1)" and "printable_id (body r1)"
    and "insertable d0 (evidence_document (body r1) d0)"
  shows "\<exists>t1 d1.
      dispatch x (pre @ evidence_routes @ post) r1 d = (Respond 201 (created t1), d1)
    \<and> getprop t1 ''id'' \<noteq> None
    \<and> getprop t1 ''evidenceNumber'' = Some (JStr (evidence_number (countDocuments d0)))
    \<and> suffix_value (evidence_number (countDocuments d0)) = countDocuments d0 + 1
    \<and> (countDocuments d0 + 1 < 1000000 \<longrightarrow> matches_EV6 (evidence_number (countDocuments d0)))
    \<and> (\<forall>r2 d1'.
          req_method r2 = POST \<and> req_path r2 = ''/api/evidence''
          \<and> falls_through x pre r2 d1 = Some d1' \<and> countDocuments d1' = countDocuments d1
          \<and> object (body r2) \<and> required (body r2) \<and> printable_id (body r2)
          \<and> insertable d1' (evidence_document (body r2) d1')
          \<longrightarrow> (\<exists>t2 d2.
                dispatch x (pre @ evidence_routes @ post) r2 d1 = (Respond 201 (created t2), d2)
              \<and> getprop t2 ''id'' \<noteq> None
              \<and> getprop t2 ''evidenceNumber'' = Some (JStr (evidence_number (countDocuments d0 + 1)))
              \<and> suffix_value (evidence_number (countDocuments d0 + 1))
                  = suffix_value (evidence_number (countDocuments d0)) + 1))"
proof -
  from create_evidence_ok [OF assms(4,5,6,7)]
  obtain t1 d1 where c1: "create_evidence (body r1) d0 = (Respond 201 (created t1), d1)"
    and i1: "getprop t1 ''id'' \<noteq> None"
    and n1: "getprop t1 ''evidenceNumber'' = Some (JStr (evidence_number (countDocuments d0)))"
    and k1: "countDocuments d1 = Suc (countDocuments d0)"
    by blast
  have first: "dispatch x (pre @ evidence_routes @ post) r1 d = (Respond 201 (created t1), d1)"
    using dispatch_append [OF assms(3)] route_evidence_create [OF assms(1,2)] c1 by simp
  have second: "\<exists>t2 d2.
        dispatch x (pre @ evidence_routes @ post) r2 d1 = (Respond 201 (created t2), d2)
      \<and> getprop t2 ''id'' \<noteq> None
      \<and> getprop t2 ''evidenceNumber'' = Some (JStr (evidence_number (countDocuments d0 + 1)))"
    if h: "req_method r2 = POST" "req_path r2 = ''/api/evidence''"
      "falls_through x pre r2 d1 = Some d1'" "countDocuments d1' = countDocuments d1"
      "object (body r2)" "required (body r2)" "printable_id (body r2)"
      "insertable d1' (evidence_document (body r2) d1')" for r2 d1'
  proof -
    from create_evidence_ok [OF h(5,6,7,8)]
    obtain t2 d2 where c2: "create_evidence (body r2) d1' = (Respond 201 (created t2), d2)"
      and i2: "getprop t2 ''id'' \<noteq> None"
      and n2: "getprop t2 ''evidenceNumber'' = Some (JStr (evidence_number (countDocuments d1')))"
      by blast
    have "dispatch x (pre @ evidence_routes @ post) r2 d1 = (Respond 201 (created t2), d2)"
      using dispatch_append [OF h(3)] route_evidence_create [OF h(1,2)] c2 by simp
    with i2 n2 h(4) k1 show ?thesis by auto
  qed
  have suffix: "suffix_value (evidence_number (countDocuments d0 + 1))
                  = suffix_value (evidence_number (countDocuments d0)) + 1"
    by (simp only: suffix_evidence_number)
  show ?thesis
    using first i1 n1 second suffix evidence_number_pattern [of "countDocuments d0"]
      suffix_evidence_number [of "countDocuments d0"]
    by blast
qed

theorem create_evidence_numbers_witness:
  "\<exists>t1 d1 t2 d2.
      dispatch pass_on (initial_app @ evidence_routes @ [])
        \<lparr>req_method = POST, req_path = ''/api/evidence'', body = firearm\<rparr> empty_db
        = (Respond 201 (created t1), d1)
    \<and> getprop t1 ''evidenceNumber'' = Some (JStr ''EV-000001'')
    \<and> matches_EV6 ''EV-000001''
    \<and> dispatch pass_on (initial_app @ evidence_routes @ [])
        \<lparr>req_method = POST, req_path = ''/api/evidence'', body = firearm\<rparr> d1
        = (Respond 201 (created t2), d2)
    \<and> getprop t2 ''evidenceNumber'' = Some (JStr ''EV-000002'')"
proof -
  let ?r = "\<lparr>req_method = POST, req_path = ''/api/evidence'', body = firearm\<rparr>"
  let ?app = "initial_app @ evidence_routes @ []"
  have ob: "object (body ?r)" by (simp add: object_def firearm_def)
  have rq: "required (body ?r)"
    by (simp add: required_def firearm_def getprop_def truthy_prop_def)
  have pr: "printable_id (body ?r)"
    by (simp add: printable_id_def firearm_def getprop_def)
  have noid: "getprop (evidence_document firearm d) ''_id'' = None" for d
    by (simp add: evidence_document_def getprop_assign) (simp add: firearm_def getprop_def)
  have ins: "insertable empty_db (evidence_document (body ?r) empty_db)"
    by (simp add: insertable_def insertOne_def noid generate_id_def store_def empty_db_def)
  have e1: "evidence_number (countDocuments empty_db) = ''EV-000001''"
    by (simp add: evidence_number_def countDocuments_def empty_db_def padStart_def String.simps eval_nat_numeral)
  have e2: "evidence_number (countDocuments empty_db + 1) = ''EV-000002''"
    by (simp add: evidence_number_def countDocuments_def empty_db_def padStart_def String.simps eval_nat_numeral)
  from create_evidence_numbers [of ?r pass_on initial_app empty_db empty_db "[]",
      OF _ _ falls_through_pass_on ob rq pr ins]
  obtain t1 d1 where f: "dispatch pass_on ?app ?r empty_db = (Respond 201 (created t1), d1)"
    and n1: "getprop t1 ''evidenceNumber'' = Some (JStr (evidence_number (countDocuments empty_db)))"
    and pat: "countDocuments empty_db + 1 < 1000000 \<longrightarrow> matches_EV6 (evidence_number (countDocuments empty_db))"
    and nxt: "\<And>r2 d1'. req_method r2 = POST \<and> req_path r2 = ''/api/evidence''
          \<and> falls_through pass_on initial_app r2 d1 = Some d1' \<and> countDocuments d1' = countDocuments d1
          \<and> object (body r2) \<and> required (body r2) \<and> printable_id (body r2)
          \<and> insertable d1' (evidence_document (body r2) d1')
          \<Longrightarrow> (\<exists>t2 d2.
                dispatch pass_on ?app r2 d1 = (Respond 201 (created t2), d2)
              \<and> getprop t2 ''id'' \<noteq> None
              \<and> getprop t2 ''evidenceNumber'' = Some (JStr (evidence_number (countDocuments empty_db + 1)))
              \<and> suffix_value (evidence_number (countDocuments empty_db + 1))
                  = suffix_value (evidence_number (countDocuments empty_db)) + 1)"
    by auto
  from create_first f have ins2: "insertable d1 (evidence_document (body ?r) d1)"
    by (simp add: insertable_def insertOne_def noid generate_id_def store_def has_id_def
        getprop_Cons getprop_Nil)
  from nxt [of ?r d1] ins2 ob rq pr falls_through_pass_on
  obtain t2 d2 where s: "dispatch pass_on ?app ?r d1 = (Respond 201 (created t2), d2)"
    and n2: "getprop t2 ''evidenceNumber'' = Some (JStr (evidence_number (countDocuments empty_db + 1)))"
    by auto
  have "matches_EV6 ''EV-000001''"
    using pat e1 by (simp add: countDocuments_def empty_db_def)
  with f n1 s n2 e1 e2 show ?thesis by auto
qed

text \<open>
  C3 as stated fails. The first body below has the three fields and no \<open>evidenceNumber\<close>,
  but its \<open>_id\<close> is that of a stored document: the insert is refused with the
  duplicate-key error and the answer is 409. The second body contains the three fields as
  well, with the empty string as \<open>type\<close>: the handler answers 400. The third has the
  three fields and an \<open>_id\<close> that is an object with a property \<open>toString\<close>: the document
  is stored, \<open>evidence._id.toString()\<close> throws, and the answer is 500.
\<close>

theorem create_evidence_counterexample:
  "required ((''_id'', JStr ''a'') # firearm)
   \<and> dispatch pass_on (initial_app @ evidence_routes)
        \<lparr>req_method = POST, req_path = ''/api/evidence'', body = (''_id'', JStr ''a'') # firearm\<rparr> taken_db
      = (Respond 409 (error_body ''Evidence number already exists''), taken_db)
   \<and> getprop blank_type ''type'' = Some (JStr [])
   \<and> dispatch pass_on (initial_app @ evidence_routes)
        \<lparr>req_method = POST, req_path = ''/api/evidence'', body = blank_type\<rparr> empty_db
      = (Respond 400 (error_body ''Missing required fields: type, description, location''), empty_db)
   \<and> required ((''_id'', JObj [(''toString'', JNum 1)]) # firearm)
   \<and> fst (dispatch pass_on (initial_app @ evidence_routes)
        \<lparr>req_method = POST, req_path = ''/api/evidence'',
          body = (''_id'', JObj [(''toString'', JNum 1)]) # firearm\<rparr> empty_db)
      = Respond 500 (error_body ''Failed to create evidence'')"
  unfolding dispatch_append [OF falls_through_pass_on]
  by (simp add: route_evidence_create_only create_evidence_def create_def insertOne_def
      store_def firearm_def blank_type_def taken_db_def empty_db_def getprop_def truthy_prop_def
      Let_def countDocuments_def has_id_def required_def transform_def toString_prop_def
      spread_def)

section \<open>Properties of the startup sequence\<close>

text \<open>
  C6. For each of the three feature route sets (primary, evidence, custodial), the registrar
  is called if and only if its module loaded (its export is there) and the database
  connected. This holds whatever the other registrars do: when the primary or the custodial
  registrar throws, the error is caught and logged, and the calls listed after it are made
  all the same.
\<close>

theorem registration_attempts:
  "(Call RegisterMongoDBRoutes \<in> set (trace (main e)))
      = (loaded (mongodb_routes e) \<noteq> None \<and> mongoConnected (main e))
   \<and> (Call RegisterEvidenceRoutes \<in> set (trace (main e)))
      = (loaded (evidence_routes_module e) \<noteq> None \<and> mongoConnected (main e))
   \<and> (Call RegisterCustodialRoutes \<in> set (trace (main e)))
      = (loaded (custodial_routes e) \<noteq> None \<and> mongoConnected (main e))
   \<and> (\<forall>ms msg. mongoConnected (main e) \<and> loaded (mongodb_routes e) = Some (Failed ms msg)
        \<longrightarrow> Console Warn (''Failed to register MongoDB routes: '' @ msg) \<in> set (trace (main e)))
   \<and> (\<forall>ms msg. mongoConnected (main e) \<and> loaded (custodial_routes e) = Some (Failed ms msg)
        \<longrightarrow> Console Warn (''Failed to register custodial routes: '' @ msg) \<in> set (trace (main e)))"
proof -
  have mc: "mongoConnected (main e) = connected e" by (simp add: main_eq)
  have w1: "Console Warn (''Failed to register MongoDB routes: '' @ msg) \<in> set (trace (main e))"
    if "connected e" "loaded (mongodb_routes e) = Some (Failed ms msg)" for ms msg
    using that by (simp add: main_eq startup_trace_def feature_trace_def registrar_trace_def)
  have w2: "Console Warn (''Failed to register custodial routes: '' @ msg) \<in> set (trace (main e))"
    if "connected e" "loaded (custodial_routes e) = Some (Failed ms msg)" for ms msg
    using that by (simp add: main_eq startup_trace_def feature_trace_def registrar_trace_def)
  show ?thesis
    unfolding mc calls_main using w1 w2 by auto
qed

theorem registration_attempts_witness:
  "mongoConnected (main failing_routes_env)
   \<and> Call RegisterMongoDBRoutes \<in> set (trace (main failing_routes_env))
   \<and> Console Warn ''Failed to register MongoDB routes: upload is not defined''
        \<in> set (trace (main failing_routes_env))
   \<and> Call RegisterEvidenceRoutes \<in> set (trace (main failing_routes_env))
   \<and> Call RegisterCustodialRoutes \<in> set (trace (main failing_routes_env))
   \<and> Console Warn ''Failed to register custodial routes: app.get is not a function''
        \<in> set (trace (main failing_routes_env))"
proof -
  have mc: "mongoConnected (main failing_routes_env)"
    by (simp add: main_eq connected_def failing_routes_env_def bare_env_def)
  have l: "loaded (mongodb_routes failing_routes_env) = Some (Failed [] ''upload is not defined'')"
    "loaded (evidence_routes_module failing_routes_env) = Some ()"
    "loaded (custodial_routes failing_routes_env) = Some (Failed [] ''app.get is not a function'')"
    by (simp_all add: failing_routes_env_def bare_env_def)
  show ?thesis
    using registration_attempts [of failing_routes_env] mc l by simp
qed

text \<open>
  C4. The connection step never lets an error out and registers no route. When the connector
  is unavailable it sets \<open>mongoConnected\<close> to false without calling anything. When the
  connector is there and its call throws (or its promise rejects), the error is caught and
  logged and \<open>mongoConnected\<close> is false. In \<open>startServer\<close> the step is complete before any
  route registration: after it the application still holds the initial middlewares only,
  no registrar has been called, and the rest of startup runs from that state.
\<close>

theorem connection_step:
  "snd (connect e s) = None
   \<and> app (fst (connect e s)) = app s
   \<and> (loaded (mongodb_connection e) = None \<longrightarrow>
        \<not> mongoConnected (fst (connect e s))
        \<and> trace (fst (connect e s)) = trace s @
            [Console Log ''Attempting MongoDB connection...'',
             Console Warn ''MongoDB connection module not available'', fallback_mode])
   \<and> (\<forall>msg. loaded (mongodb_connection e) = Some (Throws msg) \<longrightarrow>
        \<not> mongoConnected (fst (connect e s))
        \<and> trace (fst (connect e s)) = trace s @
            [Console Log ''Attempting MongoDB connection...'',
             Console Log ''- Calling connectToMongoDB...'', Call ConnectToMongoDB,
             Console Warn (''MongoDB connection failed: '' @ msg), fallback_mode])
   \<and> (\<exists>s1. steps [emit [Console Log ''Starting server initialization...''],
                   load_modules e, connect e] initial = (s1, None)
           \<and> app s1 = initial_app
           \<and> (\<forall>c \<in> set registrars. Call c \<notin> set (trace s1))
           \<and> startServer e initial = steps [register_routes e, frontend e, schedule_seeding, listen e] s1)"
proof -
  let ?s1 = "initial\<lparr>trace := loading_trace e @ connect_trace e, mongoConnected := connected e\<rparr>"
  have pre: "steps [emit [Console Log ''Starting server initialization...''],
                   load_modules e, connect e] initial = (?s1, None)"
    by (simp add: emit_def load_modules_eq connect_eq loading_trace_def initial_def)
  have whole: "startServer e =
      steps ([emit [Console Log ''Starting server initialization...''], load_modules e, connect e]
             @ [register_routes e, frontend e, schedule_seeding, listen e])"
    by (simp add: startServer_def)
  have rest: "startServer e initial = steps [register_routes e, frontend e, schedule_seeding, listen e] ?s1"
    unfolding whole steps_append pre by simp
  have nocall: "\<forall>c \<in> set registrars. Call c \<notin> set (trace ?s1)"
    by (simp add: registrars_def calls_loading calls_connect)
  have "app ?s1 = initial_app" by (simp add: initial_def)
  with pre rest nocall have last: "\<exists>s1. steps [emit [Console Log ''Starting server initialization...''],
                   load_modules e, connect e] initial = (s1, None)
           \<and> app s1 = initial_app
           \<and> (\<forall>c \<in> set registrars. Call c \<notin> set (trace s1))
           \<and> startServer e initial = steps [register_routes e, frontend e, schedule_seeding, listen e] s1"
    by blast
  show ?thesis
    using last by (simp add: connect_eq connect_trace_def connected_def)
qed

theorem connection_step_witness:
  "loaded (mongodb_connection bare_env) = None
   \<and> \<not> mongoConnected (fst (connect bare_env initial))
   \<and> Call ConnectToMongoDB \<notin> set (trace (fst (connect bare_env initial)))
   \<and> loaded (mongodb_connection refused_env) = Some (Throws ''connect ECONNREFUSED'')
   \<and> \<not> mongoConnected (fst (connect refused_env initial))
   \<and> Console Warn ''MongoDB connection failed: connect ECONNREFUSED''
        \<in> set (trace (fst (connect refused_env initial)))
   \<and> snd (connect refused_env initial) = None"
proof -
  have a: "loaded (mongodb_connection bare_env) = None" by (simp add: bare_env_def)
  have b: "loaded (mongodb_connection refused_env) = Some (Throws ''connect ECONNREFUSED'')"
    by (simp add: refused_env_def bare_env_def)
  have t: "trace initial = []" by (simp add: initial_def)
  show ?thesis
    using connection_step [of bare_env initial] connection_step [of refused_env initial] a b t
    by (simp add: fallback_mode_def)
qed

text \<open>
  C8. The process ends with exit status 1 exactly when listening fails: the server emits an
  error (such as the port being in use) or \<open>listen\<close> itself refuses the port. The error
  event is logged with its message, and with a line of its own when its code is
  \<open>EADDRINUSE\<close>. No failure before that (module load, connection, registration, frontend
  setup) leaves \<open>startServer\<close>, and none leaves the seeder: they do not end the process.
\<close>

theorem only_listen_is_fatal:
  "exit_code (main e) = (if valid_port (port e) \<and> bind e = None then None else Some 1)
   \<and> listening (main e) = (valid_port (port e) \<and> bind e = None)
   \<and> snd (startServer e initial)
       = (if valid_port (port e) then None else Some (bad_port (port e)))
   \<and> snd (seeder e s) = None
   \<and> (\<forall>c msg. valid_port (port e) \<and> bind e = Some (c, msg) \<longrightarrow>
         trace (main e) = trace (fst (startServer e initial))
           @ Console Err (''Server error: '' @ msg)
           # (if c = ''EADDRINUSE''
              then [Console Err (''Port '' @ port_text (port e) @ '' is already in use'')]
              else []))"
proof -
  have seed: "snd (seeder e s) = None"
    by (simp add: seeder_def seed_admin_user_def try_catch_def emit_def call_attempt_def
        import_module_def throw_def skip_def
        split: option.splits attempt.splits import.splits prod.splits)
  show ?thesis
    by (simp add: main_eq startServer_eq seed final_trace_def)
qed

theorem only_listen_is_fatal_witness:
  "valid_port (port port_in_use_env)
   \<and> exit_code (main port_in_use_env) = Some 1
   \<and> \<not> listening (main port_in_use_env)
   \<and> Console Err ''Port 5000 is already in use'' \<in> set (trace (main port_in_use_env))
   \<and> exit_code (main refused_env) = None \<and> listening (main refused_env)"
proof -
  have ws: "[CHR ''5''] \<notin> set white_space" "''50'' \<notin> set white_space" "''500'' \<notin> set white_space"
    by (simp_all add: white_space_def)
  have p: "port port_in_use_env = Some 5000" "port refused_env = Some 5000"
    by (simp_all add: port_def port_in_use_env_def refused_env_def bare_env_def parseInt_def
        ws parse_unsigned_def digit_value_def digits_value_def)
  have b: "bind port_in_use_env = Some (''EADDRINUSE'', ''listen EADDRINUSE: address already in use 0.0.0.0:5000'')"
    "bind refused_env = None"
    by (simp_all add: port_in_use_env_def refused_env_def bare_env_def)
  have t: "port_text (Some 5000) = ''5000''"
    by (simp add: port_text_def String.simps)
  show ?thesis
    using only_listen_is_fatal [of port_in_use_env initial] only_listen_is_fatal [of refused_env initial]
    by (simp add: p b t valid_port_def)
qed

text \<open>
  C2 fails on the code. With the database connected, the seed module loaded and
  \<open>seedGeofiles\<close> throwing, the error reaches the outer \<open>catch\<close> of the seeder, which logs
  it; the admin seeding, which comes later in the same \<open>try\<close> block, is never attempted.
  (The process does not crash, and an error of the admin seeding is caught by its own
  \<open>try\<close>, after the geofile seeding has run.)
\<close>

theorem geofile_error_skips_admin_seeding:
  "seeding_scheduled (main seed_failure_env)
   \<and> seeder seed_failure_env initial =
       (initial\<lparr>trace := [Console Log ''Seeding sample geofiles in background...'',
                          Call SeedGeofiles,
                          Console Warn ''Failed to seed data: geofiles collection missing'']\<rparr>, None)
   \<and> Call SeedAdminUser \<notin> set (trace (fst (seeder seed_failure_env initial)))"
  by (simp add: main_eq connected_def seed_failure_env_def bare_env_def seeder_def
      seed_admin_user_def try_catch_def emit_def call_attempt_def import_module_def throw_def
      skip_def initial_def)

text \<open>
  C5, as amended. The frontend step takes exactly one of its three branches. The
  production strategy (its catch-all handler) is registered exactly in production mode,
  and then neither of the others is. Outside production the setup call of the bundler is
  made exactly when its module loaded, and the handlers of the bundler are those the call
  installed; the inline page is registered exactly when the module did not load or the
  call threw. In particular, if the setup call throws, the inline handler is registered,
  as the last layer of the application. So exactly one strategy is registered, unless the
  setup call installed handlers before it threw (they stay, in front of the inline page)
  or returned without installing any.
\<close>

theorem frontend_strategies:
  "active (main e) Production = (NODE_ENV e = Some ''production'')
   \<and> (Call SetupVite \<in> set (trace (main e)))
       = (NODE_ENV e \<noteq> Some ''production'' \<and> loaded (vite e) \<noteq> None)
   \<and> active (main e) Bundler
       = (NODE_ENV e \<noteq> Some ''production''
          \<and> (\<exists>reg. loaded (vite e) = Some reg \<and> installed ''vite'' reg \<noteq> []))
   \<and> active (main e) Inline
       = (NODE_ENV e \<noteq> Some ''production'' \<and> (\<forall>ms. loaded (vite e) \<noteq> Some (Registered ms)))
   \<and> (\<exists>!st. active (main e) st)
       = (NODE_ENV e = Some ''production''
          \<or> (case loaded (vite e) of
                None \<Rightarrow> True
              | Some (Registered ms) \<Rightarrow> ms \<noteq> []
              | Some (Failed ms msg) \<Rightarrow> ms = []))
   \<and> (\<forall>ms msg. NODE_ENV e \<noteq> Some ''production'' \<and> loaded (vite e) = Some (Failed ms msg) \<longrightarrow>
        active (main e) Inline
        \<and> last (app (main e)) = Layer (Route GET [Wild]) (InlineHtml (mongoConnected (main e))))"
proof -
  have p: "active (main e) Production = (NODE_ENV e = Some ''production'')"
    by (simp add: active_def app_main prod_registered)
  have c: "(Call SetupVite \<in> set (trace (main e)))
       = (NODE_ENV e \<noteq> Some ''production'' \<and> loaded (vite e) \<noteq> None)"
    by (simp add: calls_main)
  have b: "active (main e) Bundler
       = (NODE_ENV e \<noteq> Some ''production''
          \<and> (\<exists>reg. loaded (vite e) = Some reg \<and> installed ''vite'' reg \<noteq> []))"
    by (simp add: active_def app_main bundler_registered)
  have i: "active (main e) Inline
       = (NODE_ENV e \<noteq> Some ''production'' \<and> (\<forall>ms. loaded (vite e) \<noteq> Some (Registered ms)))"
    by (simp add: active_def app_main inline_registered)
  have one: "(\<exists>!st. active (main e) st)
       = (NODE_ENV e = Some ''production''
          \<or> (case loaded (vite e) of
                None \<Rightarrow> True
              | Some (Registered ms) \<Rightarrow> ms \<noteq> []
              | Some (Failed ms msg) \<Rightarrow> ms = []))"
  proof (cases "NODE_ENV e = Some ''production''")
    case True
    with p b i have "active (main e) st = (st = Production)" for st by (cases st) simp_all
    with True show ?thesis by simp
  next
    case dev: False
    show ?thesis
    proof (cases "loaded (vite e)")
      case None
      with dev p b i have "active (main e) st = (st = Inline)" for st by (cases st) auto
      with dev None show ?thesis by simp
    next
      case (Some reg)
      show ?thesis
      proof (cases reg)
        case (Registered ms)
        with dev Some p b i have a: "active (main e) st = (st = Bundler \<and> ms \<noteq> [])" for st
          by (cases st) (auto simp: installed_def foreign_layers_Nil)
        show ?thesis
        proof (cases "ms = []")
          case True
          with a have "\<not> (\<exists>!st. active (main e) st)" by (auto simp: Ex1_def)
          with dev Some Registered True show ?thesis by simp
        next
          case False
          with a have "active (main e) st = (st = Bundler)" for st by simp
          with dev Some Registered False show ?thesis by simp
        qed
      next
        case (Failed ms msg)
        with dev Some p b i have a: "active (main e) Inline" "\<not> active (main e) Production"
          "active (main e) Bundler = (ms \<noteq> [])"
          by (auto simp: installed_def foreign_layers_Nil)
        show ?thesis
        proof (cases "ms = []")
          case True
          with a have "active (main e) st = (st = Inline)" for st by (cases st) simp_all
          with dev Some Failed True show ?thesis by simp
        next
          case False
          with a have "active (main e) Inline" "active (main e) Bundler" by simp_all
          then have "\<not> (\<exists>!st. active (main e) st)" by (auto simp: Ex1_def)
          with dev Some Failed False show ?thesis by simp
        qed
      qed
    qed
  qed
  have f: "active (main e) Inline
        \<and> last (app (main e)) = Layer (Route GET [Wild]) (InlineHtml (mongoConnected (main e)))"
    if "NODE_ENV e \<noteq> Some ''production''" "loaded (vite e) = Some (Failed ms msg)" for ms msg
    using that i last_frontend_failed [OF that] by (simp add: app_main connected_main)
  from p c b i one f show ?thesis by blast
qed

theorem frontend_strategies_witness:
  "NODE_ENV vite_failure_env \<noteq> Some ''production''
   \<and> loaded (vite vite_failure_env) = Some (Failed [] ''failed to load config'')
   \<and> Call SetupVite \<in> set (trace (main vite_failure_env))
   \<and> active (main vite_failure_env) Inline
   \<and> \<not> active (main vite_failure_env) Bundler
   \<and> \<not> active (main vite_failure_env) Production
   \<and> (\<exists>!st. active (main vite_failure_env) st)
   \<and> last (app (main vite_failure_env)) = Layer (Route GET [Wild]) (InlineHtml False)
   \<and> active (main vite_env) Bundler
   \<and> \<not> active (main vite_env) Inline
   \<and> \<not> active (main vite_env) Production
   \<and> (\<exists>!st. active (main vite_env) st)"
proof -
  have a: "NODE_ENV vite_failure_env \<noteq> Some ''production''"
    and b: "loaded (vite vite_failure_env) = Some (Failed [] ''failed to load config'')"
    by (simp_all add: vite_failure_env_def bare_env_def)
  have c: "\<not> mongoConnected (main vite_failure_env)"
    by (simp add: connected_main connected_def vite_failure_env_def bare_env_def)
  have d: "installed ''vite'' (Failed [] ''failed to load config'') = []"
    by (simp add: installed_def foreign_layers_def)
  have a': "NODE_ENV vite_env \<noteq> Some ''production''"
    and b': "loaded (vite vite_env) = Some (Registered [Mount ''/''])"
    by (simp_all add: vite_env_def bare_env_def)
  have d': "installed ''vite'' (Registered [Mount ''/'']) \<noteq> []"
    by (simp add: installed_def foreign_layers_def)
  show ?thesis
    using frontend_strategies [of vite_failure_env] frontend_strategies [of vite_env]
      a b c d a' b' d'
    by simp
qed

text \<open>
  C5 as stated fails. Outside production, when the setup call of the bundler has installed
  its middleware and then throws, the application holds that middleware and, after it,
  the inline page: two strategies are registered together.
\<close>

theorem two_frontend_strategies:
  "NODE_ENV vite_half_way_env \<noteq> Some ''production''
   \<and> app (main vite_half_way_env) =
       initial_app @
       [Layer (Mount ''/uploads'') (Library ''express.static(uploads)''),
        Layer (Route GET [Lit ''/api/health'']) (Health False),
        catch_all,
        Layer (Mount ''/'') (Foreign ''vite'' 0),
        Layer (Route GET [Wild]) (InlineHtml False)]
   \<and> active (main vite_half_way_env) Bundler
   \<and> active (main vite_half_way_env) Inline"
proof -
  have a: "app (main vite_half_way_env) =
       initial_app @
       [Layer (Mount ''/uploads'') (Library ''express.static(uploads)''),
        Layer (Route GET [Lit ''/api/health'']) (Health False),
        catch_all,
        Layer (Mount ''/'') (Foreign ''vite'' 0),
        Layer (Route GET [Wild]) (InlineHtml False)]"
    by (simp add: app_main startup_app_def feature_layers_def additional_layers_def
        fixed_layers_def frontend_layers_def connected_def vite_half_way_env_def bare_env_def
        catch_all_def foreign_layers_def)
  have b: "active (main vite_half_way_env) Bundler" "active (main vite_half_way_env) Inline"
    by (simp_all add: active_def a initial_app_def catch_all_def)
  with a show ?thesis by (simp add: vite_half_way_env_def bare_env_def)
qed

section \<open>What unmatched requests receive\<close>

text \<open>
  C1, as amended. The service-unavailable route is registered if and only if the database
  is not connected, and no other layer of the application answers with its handler. When
  registered, it answers every GET request (and HEAD, which Express serves with the GET
  handler) for a path under \<open>/api/\<close> whose remainder can be decoded and that the layers
  before it pass on, with status 503 and the fixed body. When the remainder cannot be
  decoded, Express answers 400 itself, whatever the method. The route is a GET route: a
  request with another method, its path decodable, is dispatched as if the route were not
  there. A request that every layer of the application passes on gets the 404 of Express.
\<close>

theorem service_unavailable_catch_all:
  "(catch_all \<in> set (app (main e))) = (\<not> mongoConnected (main e))
   \<and> (\<forall>l \<in> set (app (main e)). handler_of l = ServiceUnavailable \<longrightarrow> l = catch_all)
   \<and> (\<not> mongoConnected (main e) \<and> (req_method r = GET \<or> req_method r = HEAD)
        \<and> startsWith (req_path r) ''/api/'' \<and> decodeURIComponent (drop 5 (req_path r)) \<noteq> None
        \<and> falls_through x (takeWhile (\<lambda>l. handler_of l \<noteq> ServiceUnavailable) (app (main e))) r d = Some d'
      \<longrightarrow> dispatch x (app (main e)) r d =
            (Respond 503
               (Json (JObj [(''message'', JStr ''Database not available. Please configure MongoDB URI in .env file.''),
                            (''status'', JStr ''service_unavailable'')])), d'))
   \<and> (\<not> mongoConnected (main e) \<and> undecodable_api (req_path r)
        \<and> falls_through x (takeWhile (\<lambda>l. handler_of l \<noteq> ServiceUnavailable) (app (main e))) r d = Some d'
      \<longrightarrow> dispatch x (app (main e)) r d = (Respond 400 DefaultBadRequest, d'))
   \<and> (req_method r \<noteq> GET \<and> req_method r \<noteq> HEAD \<and> \<not> undecodable_api (req_path r)
      \<longrightarrow> dispatch x (app (main e)) r d =
            dispatch x (filter (\<lambda>l. handler_of l \<noteq> ServiceUnavailable) (app (main e))) r d)
   \<and> (\<forall>d''. falls_through x (app (main e)) r d = Some d''
      \<longrightarrow> dispatch x (app (main e)) r d = (Respond 404 DefaultNotFound, d''))"
proof -
  let ?pre = "initial_app @ feature_layers e False @ additional_layers e
             @ [Layer (Mount ''/uploads'') (Library ''express.static(uploads)''),
                Layer (Route GET [Lit ''/api/health'']) (Health False)]"
  have a: "(catch_all \<in> set (app (main e))) = (\<not> mongoConnected (main e))"
    by (simp add: app_main connected_main catch_all_registered)
  have b: "\<forall>l \<in> set (app (main e)). handler_of l = ServiceUnavailable \<longrightarrow> l = catch_all"
    using service_unavailable_layers [of _ e] by (auto simp: app_main)
  have at: "dispatch x (app (main e)) r d = dispatch x (catch_all # frontend_layers e False) r d'"
    if nc: "\<not> mongoConnected (main e)"
      and ft: "falls_through x (takeWhile (\<lambda>l. handler_of l \<noteq> ServiceUnavailable) (app (main e))) r d = Some d'"
  proof -
    from nc have ne: "\<not> connected e" by (simp add: connected_main)
    have split: "app (main e) = ?pre @ catch_all # frontend_layers e False"
      using before_catch_all(1) [OF ne] by (simp only: app_main)
    have ft': "falls_through x ?pre r d = Some d'"
      using ft before_catch_all(2) [OF ne] by (simp only: app_main)
    show ?thesis unfolding split dispatch_append [OF ft'] ..
  qed
  have c: "dispatch x (app (main e)) r d = (service_unavailable, d')"
    if nc: "\<not> mongoConnected (main e)" and m: "req_method r = GET \<or> req_method r = HEAD"
      and p: "startsWith (req_path r) ''/api/''"
      and dec: "decodeURIComponent (drop 5 (req_path r)) \<noteq> None"
      and ft: "falls_through x (takeWhile (\<lambda>l. handler_of l \<noteq> ServiceUnavailable) (app (main e))) r d = Some d'"
  proof -
    have "matches (Route GET [Lit ''/api/'', Wild]) r
            = Matched [(''0'', the (decodeURIComponent (drop 5 (req_path r))))]"
      using m dec api_prefix [OF p] by (simp only: catch_all_matches) simp
    then have "dispatch x (catch_all # frontend_layers e False) r d' = (service_unavailable, d')"
      by (simp add: catch_all_def service_unavailable_def)
    then show ?thesis unfolding at [OF nc ft] .
  qed
  have c400: "dispatch x (app (main e)) r d = (Respond 400 DefaultBadRequest, d')"
    if nc: "\<not> mongoConnected (main e)" and u: "undecodable_api (req_path r)"
      and ft: "falls_through x (takeWhile (\<lambda>l. handler_of l \<noteq> ServiceUnavailable) (app (main e))) r d = Some d'"
  proof -
    have "matches (Route GET [Lit ''/api/'', Wild]) r = Undecodable"
      using u by (simp only: catch_all_matches undecodable_api_def) simp
    then have "dispatch x (catch_all # frontend_layers e False) r d' = (Respond 400 DefaultBadRequest, d')"
      by (simp add: catch_all_def)
    then show ?thesis unfolding at [OF nc ft] .
  qed
  have dd: "dispatch x (app (main e)) r d =
            dispatch x (filter (\<lambda>l. handler_of l \<noteq> ServiceUnavailable) (app (main e))) r d"
    if "req_method r \<noteq> GET" "req_method r \<noteq> HEAD" "\<not> undecodable_api (req_path r)"
  proof (rule dispatch_without, intro allI impI)
    fix m assume "Layer m ServiceUnavailable \<in> set (app (main e))"
    with b have "Layer m ServiceUnavailable = catch_all" by auto
    then have "m = Route GET [Lit ''/api/'', Wild]" by (simp add: catch_all_def)
    with that show "matches m r = Unmatched"
      by (simp only: catch_all_matches undecodable_api_def) auto
  qed
  have ee: "\<forall>d''. falls_through x (app (main e)) r d = Some d''
      \<longrightarrow> dispatch x (app (main e)) r d = (Respond 404 DefaultNotFound, d'')"
    using dispatch_unanswered by blast
  from a b c c400 dd ee show ?thesis
    by (simp add: service_unavailable_def)
qed

theorem service_unavailable_catch_all_witness:
  "\<not> mongoConnected (main bare_env)
   \<and> catch_all \<in> set (app (main bare_env))
   \<and> dispatch pass_on (app (main bare_env))
        \<lparr>req_method = GET, req_path = ''/api/evidence'', body = []\<rparr> empty_db =
      (Respond 503
         (Json (JObj [(''message'', JStr ''Database not available. Please configure MongoDB URI in .env file.''),
                      (''status'', JStr ''service_unavailable'')])), empty_db)
   \<and> dispatch pass_on (app (main bare_env))
        \<lparr>req_method = GET, req_path = ''/api/%zz'', body = []\<rparr> empty_db =
      (Respond 400 DefaultBadRequest, empty_db)
   \<and> dispatch pass_on (app (main bare_env))
        \<lparr>req_method = PUT, req_path = ''/api/evidence'', body = []\<rparr> empty_db =
      dispatch pass_on (filter (\<lambda>l. handler_of l \<noteq> ServiceUnavailable) (app (main bare_env)))
        \<lparr>req_method = PUT, req_path = ''/api/evidence'', body = []\<rparr> empty_db"
proof -
  let ?r = "\<lparr>req_method = GET, req_path = ''/api/evidence'', body = []\<rparr>"
  let ?z = "\<lparr>req_method = GET, req_path = ''/api/%zz'', body = []\<rparr>"
  let ?q = "\<lparr>req_method = PUT, req_path = ''/api/evidence'', body = []\<rparr>"
  have nc: "\<not> mongoConnected (main bare_env)"
    by (simp add: connected_main connected_def bare_env_def)
  have p: "startsWith (req_path ?r) ''/api/''" by (simp add: startsWith_def)
  have dec: "decodeURIComponent (drop 5 (req_path ?r)) \<noteq> None"
    by (simp add: decodeURIComponent_def)
  have u: "undecodable_api (req_path ?z)"
    by (simp add: undecodable_api_def lower_def decodeURIComponent_def hex_value_def)
  have nu: "\<not> undecodable_api (req_path ?q)"
    by (simp add: undecodable_api_def decodeURIComponent_def)
  have tw: "takeWhile (\<lambda>l. handler_of l \<noteq> ServiceUnavailable) (app (main bare_env)) =
     initial_app @
     [Layer (Mount ''/uploads'') (Library ''express.static(uploads)''),
      Layer (Route GET [Lit ''/api/health'']) (Health False)]"
    by (simp add: app_bare_env initial_app_def catch_all_def)
  have ft: "falls_through pass_on
      (takeWhile (\<lambda>l. handler_of l \<noteq> ServiceUnavailable) (app (main bare_env))) ?r empty_db = Some empty_db"
    unfolding tw
    by (simp add: initial_app_def pass_on_def method_matches_def health_path_evidence
        uploads_mount_evidence mount_matches_def del: pmatch.simps)
  have ftz: "falls_through pass_on
      (takeWhile (\<lambda>l. handler_of l \<noteq> ServiceUnavailable) (app (main bare_env))) ?z empty_db = Some empty_db"
    unfolding tw
    by (simp add: initial_app_def pass_on_def method_matches_def mount_matches_def lower_def)
  show ?thesis
    using service_unavailable_catch_all [of bare_env ?r pass_on empty_db empty_db]
      service_unavailable_catch_all [of bare_env ?z pass_on empty_db empty_db]
      service_unavailable_catch_all [of bare_env ?q pass_on empty_db empty_db] nc p dec u nu ft ftz
    by simp
qed

text \<open>
  C1 as stated fails. Without a database, a POST to an unmatched path under \<open>/api\<close>
  is not answered with 503: the fallback route is a GET route, and Express answers 404.
  Nor is a GET of \<open>/api/%zz\<close>: Express cannot decode what the route captured and answers
  400. With the database connected, in production, a GET of an unmatched path under
  \<open>/api\<close> does not get the 404: the frontend catch-all takes it and never answers.
\<close>

theorem unmatched_api_requests_counterexample:
  "\<not> mongoConnected (main bare_env)
   \<and> dispatch pass_on (app (main bare_env))
        \<lparr>req_method = POST, req_path = ''/api/evidence'', body = firearm\<rparr> empty_db
      = (Respond 404 DefaultNotFound, empty_db)
   \<and> dispatch pass_on (app (main bare_env))
        \<lparr>req_method = GET, req_path = ''/api/%zz'', body = []\<rparr> empty_db
      = (Respond 400 DefaultBadRequest, empty_db)
   \<and> mongoConnected (main production_env)
   \<and> dispatch pass_on (app (main production_env))
        \<lparr>req_method = GET, req_path = ''/api/unknown'', body = []\<rparr> empty_db
      = (NoResponse, empty_db)"
proof -
  have a: "\<not> mongoConnected (main bare_env)"
    by (simp add: connected_main connected_def bare_env_def)
  have dec: "decodeURIComponent ''evidence'' = Some ''evidence''"
    "decodeURIComponent ''/api/evidence'' = Some ''/api/evidence''"
    "decodeURIComponent ''/api/unknown'' = Some ''/api/unknown''"
    by (simp_all add: decodeURIComponent_def)
  have h1: "matches (Route GET [Lit ''/api/health''])
              \<lparr>req_method = POST, req_path = ''/api/evidence'', body = firearm\<rparr> = Unmatched"
    by (simp add: health_path_evidence del: pmatch.simps)
  have h2: "matches (Route GET [Lit ''/api/health''])
              \<lparr>req_method = GET, req_path = ''/api/unknown'', body = []\<rparr> = Unmatched"
    by (simp add: health_path_unknown del: pmatch.simps)
  have b: "dispatch pass_on (app (main bare_env))
        \<lparr>req_method = POST, req_path = ''/api/evidence'', body = firearm\<rparr> empty_db
      = (Respond 404 DefaultNotFound, empty_db)"
    by (simp add: app_bare_env initial_app_def pass_on_def catch_all_def
        uploads_mount_evidence mount_matches_def h1 catch_all_matches
        star_matches dec lower_def del: matches.simps(2))
  have z: "decodeURIComponent ''%zz'' = None"
    by (simp add: decodeURIComponent_def hex_value_def lower_def)
  have h3: "matches (Route GET [Lit ''/api/health''])
              \<lparr>req_method = GET, req_path = ''/api/%zz'', body = []\<rparr> = Unmatched"
    by (simp add: lower_def)
  have b': "dispatch pass_on (app (main bare_env))
        \<lparr>req_method = GET, req_path = ''/api/%zz'', body = []\<rparr> empty_db
      = (Respond 400 DefaultBadRequest, empty_db)"
    by (simp add: app_bare_env initial_app_def pass_on_def catch_all_def
        mount_matches_def h3 catch_all_matches z lower_def del: matches.simps(2))
  have c: "mongoConnected (main production_env)"
    by (simp add: connected_main connected_def production_env_def bare_env_def)
  have d: "dispatch pass_on (app (main production_env))
        \<lparr>req_method = GET, req_path = ''/api/unknown'', body = []\<rparr> empty_db
      = (NoResponse, empty_db)"
    by (simp add: app_production_env initial_app_def pass_on_def
        uploads_mount_unknown mount_matches_def h2 star_matches dec prod_index_def startsWith_def
        del: matches.simps(2))
  from a b b' c d show ?thesis by simp
qed

text \<open>
  C10, as amended. In production mode the last layer of the application is the catch-all
  GET handler. A GET (or HEAD) request that the layers before it pass on reaches it when
  the path can be decoded: it calls \<open>res.sendFile\<close> for the built entry document if and
  only if the path does not start with \<open>/api\<close>, and the answer is then that of
  \<open>res.sendFile\<close>; for a path that starts with \<open>/api\<close> it neither answers nor calls
  \<open>next()\<close>, so the request gets no response. When the path cannot be decoded, the
  handler does not run and Express answers 400 itself.
\<close>

theorem production_catch_all:
  assumes "NODE_ENV e = Some ''production''"
    and "req_method r = GET \<or> req_method r = HEAD"
    and "falls_through x (butlast (app (main e))) r d = Some d'"
  shows "last (app (main e)) = Layer (Route GET [Wild]) ProdIndex
       \<and> dispatch x (app (main e)) r d =
           (if decodeURIComponent (req_path r) = None then (Respond 400 DefaultBadRequest, d')
            else if startsWith (req_path r) ''/api'' then (NoResponse, d')
            else settle (x index_html r d'))"
proof -
  let ?pre = "initial_app @ feature_layers e (connected e) @ additional_layers e
                @ fixed_layers (connected e) @ [Layer (Mount ''/'') (Library ''express.static(buildPath)'')]"
  have split: "app (main e) = ?pre @ [Layer (Route GET [Wild]) ProdIndex]"
    using assms(1) by (simp add: app_main startup_app_def frontend_layers_def)
  have bl: "butlast (app (main e)) = ?pre" unfolding split by (rule butlast_snoc)
  have ft: "falls_through x ?pre r d = Some d'" using assms(3) bl by simp
  have st: "(case p of (Next, d'') \<Rightarrow> dispatch x [] r d''
             | (Respond st c, d'') \<Rightarrow> (Respond st c, d'')
             | (NoResponse, d'') \<Rightarrow> (NoResponse, d'')) = settle p" for p
    by (cases p; cases "fst p") (auto simp: settle_def)
  have "dispatch x [Layer (Route GET [Wild]) ProdIndex] r d' =
           (if decodeURIComponent (req_path r) = None then (Respond 400 DefaultBadRequest, d')
            else if startsWith (req_path r) ''/api'' then (NoResponse, d')
            else settle (x index_html r d'))"
    using assms(2)
    by (auto simp: star_matches prod_index_def st settle_def simp del: matches.simps(2))
  then have "dispatch x (app (main e)) r d =
           (if decodeURIComponent (req_path r) = None then (Respond 400 DefaultBadRequest, d')
            else if startsWith (req_path r) ''/api'' then (NoResponse, d')
            else settle (x index_html r d'))"
    unfolding split dispatch_append [OF ft] .
  moreover have "last (app (main e)) = Layer (Route GET [Wild]) ProdIndex"
    unfolding split by simp
  ultimately show ?thesis by simp
qed

theorem production_catch_all_witness:
  "NODE_ENV production_env = Some ''production''
   \<and> startsWith ''/api/unknown'' ''/api''
   \<and> dispatch serving (app (main production_env))
        \<lparr>req_method = GET, req_path = ''/api/unknown'', body = []\<rparr> empty_db = (NoResponse, empty_db)
   \<and> dispatch serving (app (main production_env))
        \<lparr>req_method = GET, req_path = ''/cases/17'', body = []\<rparr> empty_db
      = (Respond 200 (SendFile ''../dist/public/index.html''), empty_db)"
proof -
  let ?r = "\<lparr>req_method = GET, req_path = ''/api/unknown'', body = []\<rparr>"
  let ?q = "\<lparr>req_method = GET, req_path = ''/cases/17'', body = []\<rparr>"
  have a: "NODE_ENV production_env = Some ''production''"
    by (simp add: production_env_def bare_env_def)
  have bl: "butlast (app (main production_env)) =
     initial_app @
     [Layer (Mount ''/uploads'') (Library ''express.static(uploads)''),
      Layer (Route GET [Lit ''/api/health'']) (Health True),
      Layer (Mount ''/'') (Library ''express.static(buildPath)'')]"
    by (simp add: app_production_env initial_app_def)
  have f1: "falls_through serving (butlast (app (main production_env))) ?r empty_db = Some empty_db"
    unfolding bl
    by (simp add: initial_app_def serving_def index_html_def uploads_mount_unknown
        health_path_unknown mount_matches_def del: pmatch.simps)
  have f2: "falls_through serving (butlast (app (main production_env))) ?q empty_db = Some empty_db"
    unfolding bl
    by (simp add: initial_app_def serving_def index_html_def mount_matches_def lower_def)
  have dec: "decodeURIComponent (req_path ?r) \<noteq> None" "decodeURIComponent (req_path ?q) \<noteq> None"
    by (simp_all add: decodeURIComponent_def)
  show ?thesis
    using production_catch_all [OF a _ f1] production_catch_all [OF a _ f2] a dec
    by (simp add: startsWith_def serving_def settle_def)
qed

text \<open>
  C10 as stated fails: in production, a GET of the unmatched path \<open>/api/%zz\<close>, which
  starts with \<open>/api\<close>, does get a response, the 400 of Express.
\<close>

theorem undecodable_path_counterexample:
  "NODE_ENV production_env = Some ''production''
   \<and> startsWith ''/api/%zz'' ''/api''
   \<and> dispatch serving (app (main production_env))
        \<lparr>req_method = GET, req_path = ''/api/%zz'', body = []\<rparr> empty_db
      = (Respond 400 DefaultBadRequest, empty_db)"
proof -
  have dec: "decodeURIComponent ''/api/%zz'' = None"
    by (simp add: decodeURIComponent_def hex_value_def lower_def)
  have h: "matches (Route GET [Lit ''/api/health''])
              \<lparr>req_method = GET, req_path = ''/api/%zz'', body = []\<rparr> = Unmatched"
    by (simp add: lower_def)
  have "dispatch serving (app (main production_env))
        \<lparr>req_method = GET, req_path = ''/api/%zz'', body = []\<rparr> empty_db
      = (Respond 400 DefaultBadRequest, empty_db)"
    by (simp add: app_production_env initial_app_def serving_def index_html_def
        mount_matches_def h star_matches dec lower_def del: matches.simps(2))
  then show ?thesis
    by (simp add: production_env_def bare_env_def startsWith_def)
qed


end
